theory Spec2Isabelle
  imports Main "HOL-Library.Word" "HOL-Library.Multiset"
begin

section \<open>Basic types\<close>

text \<open>
  Go's \<open>int\<close> is modelled as a 64-bit word (its width on 64-bit targets): \<open>+\<close> wraps
  around as the machine addition does, and every comparison of the source is a signed
  comparison, written \<open>sint a < sint b\<close>. A \<open>[]byte\<close> that the code tests against
  \<open>nil\<close> is a \<open>byte list option\<close> (\<open>None\<close> is the nil slice).
\<close>

type_synonym byte = "8 word"
type_synonym go_int = "64 word"

subsection \<open>Logging\<close>

text \<open>
  The logging client is a list of entries that is only ever appended to. An entry keeps the
  level, the message (for \<open>fmt.Sprintf\<close> the format string) and the arguments.
\<close>

datatype LogLevel = TRACE | DEBUG | INFO | WARN | ERROR

datatype LogArg = S string | N go_int | L nat

type_synonym LogEntry = "LogLevel \<times> string \<times> LogArg list"

text \<open>
  Everything outside one function call: the log, and the world \<open>'w\<close> in which the store
  client's database and whatever the transforms touch live.
\<close>

record 'w System =
  logs :: "LogEntry list"
  world :: 'w

definition logMsg :: "LogLevel \<Rightarrow> string \<Rightarrow> LogArg list \<Rightarrow> 'w System \<Rightarrow> 'w System" where
  "logMsg lv msg args st = st\<lparr>logs := logs st @ [(lv, msg, args)]\<rparr>"

definition CorrelationHeader :: string where
  "CorrelationHeader = ''X-Correlation-ID''"

subsection \<open>Configuration, stored objects, context\<close>

text \<open>
  The declarations of \<open>common.ConfigurationStruct\<close>, \<open>contracts.StoredObject\<close>,
  \<open>appcontext.Context\<close> and \<open>interfaces.StoreClient\<close> are not among the source files; the
  records below have the fields that the functions of \<open>storeforward.go\<close> and of the
  message bus trigger read and write.
\<close>

record StoreAndForwardInfo =
  Enabled :: bool
  RetryInterval :: go_int
  MaxRetryCount :: go_int

record WritableInfo =
  StoreAndForward :: StoreAndForwardInfo

record ConfigurationStruct =
  Writable :: WritableInfo

record StoredObject =
  ID :: string
  AppServiceKey :: string
  Payload :: "byte list"
  RetryCount :: go_int
  PipelinePosition :: go_int
  Version :: string
  CorrelationID :: string
  EventID :: string
  EventChecksum :: string

text \<open>
  Modelled from the spec: the constructor \<open>contracts.NewStoredObject\<close> is not among the
  source files. The stored object records the service key, the payload, the pipeline position
  and the pipeline hash; its identifier is assigned by the store and its retry counter starts
  at 0.
\<close>

definition NewStoredObject :: "string \<Rightarrow> byte list \<Rightarrow> go_int \<Rightarrow> string \<Rightarrow> StoredObject" where
  "NewStoredObject appServiceKey payload pipelinePosition version =
     \<lparr>ID = '''', AppServiceKey = appServiceKey, Payload = payload, RetryCount = 0,
      PipelinePosition = pipelinePosition, Version = version, CorrelationID = '''',
      EventID = '''', EventChecksum = ''''\<rparr>"

record Context =
  ctxCorrelationID :: string
  ctxEventID :: string
  ctxEventChecksum :: string
  Configuration :: ConfigurationStruct
  RetryData :: "byte list option"
  OutputData :: "byte list option"
  ResponseContentType :: string

record MessageError =
  Err :: string
  ErrorCode :: nat

text \<open>
  The persistence port. Each operation acts on the world and returns an error (\<open>Inl\<close>, or
  \<open>Some\<close>) or its result.
\<close>

record 'w StoreClient =
  Store :: "StoredObject \<Rightarrow> 'w \<Rightarrow> (string + string) \<times> 'w"
  RetrieveFromStore :: "string \<Rightarrow> 'w \<Rightarrow> (string + StoredObject list) \<times> 'w"
  Update :: "StoredObject \<Rightarrow> 'w \<Rightarrow> string option \<times> 'w"
  RemoveFromStore :: "StoredObject \<Rightarrow> 'w \<Rightarrow> string option \<times> 'w"

subsection \<open>Events and envelopes\<close>

text \<open>
  The event of the current schema (\<open>dtos.Event\<close> with its \<open>dtos.BaseReading\<close>) and of the
  legacy schema (\<open>models.Event\<close> with its \<open>models.Reading\<close>), with the fields of the
  literals \<open>testEvent\<close> and \<open>testV1Event\<close> of the runtime's test file, and the message
  envelope of the messaging module. None of these declarations is among the source files.
\<close>

record BaseReading =
  rdApiVersion :: string
  rdId :: string
  rdCreated :: go_int
  rdOrigin :: go_int
  rdDeviceName :: string
  rdResourceName :: string
  rdProfileName :: string
  rdValueType :: string
  rdValue :: string
  rdBinaryValue :: "byte list"
  rdMediaType :: string

record Event =
  evApiVersion :: string
  evId :: string
  evDeviceName :: string
  evProfileName :: string
  evCreated :: go_int
  evOrigin :: go_int
  evReadings :: "BaseReading list"
  evTags :: "(string \<times> string) list"

record V1Reading =
  v1rId :: string
  v1rCreated :: go_int
  v1rOrigin :: go_int
  v1rDevice :: string
  v1rName :: string
  v1rValueType :: string
  v1rValue :: string
  v1rBinaryValue :: "byte list"
  v1rMediaType :: string

record V1Event =
  v1ID :: string
  v1Device :: string
  v1Created :: go_int
  v1Origin :: go_int
  v1Readings :: "V1Reading list"
  v1Tags :: "(string \<times> string) list"

record MessageEnvelope =
  envCorrelationID :: string
  envPayload :: "byte list"
  envContentType :: string

definition ContentTypeJSON :: string where
  "ContentTypeJSON = ''application/json''"

definition ContentTypeCBOR :: string where
  "ContentTypeCBOR = ''application/cbor''"

subsection \<open>Pipeline values and transforms\<close>

text \<open>
  A transform receives the context and one \<open>interface{}\<close> value and returns the
  \<open>continue?\<close> flag and its output; the context is passed by pointer, so it is returned
  as well. A transform that panics returns \<open>None\<close>. \<open>funcName\<close> is the name that
  \<open>runtime.FuncForPC(reflect.ValueOf(f).Pointer()).Name()\<close> reports for it.
\<close>

datatype PipelineValue =
    VNil
  | VError string
  | VBytes "byte list"
  | VString string
  | VInt int
  | VEvent Event

record 'w AppFunction =
  funcName :: string
  fn :: "Context \<Rightarrow> PipelineValue \<Rightarrow> 'w \<Rightarrow> ((bool \<times> PipelineValue) option \<times> Context \<times> 'w)"

record 'w GolangRuntime =
  ServiceKey :: string
  transforms :: "'w AppFunction list"

record 'w storeForwardInfo =
  runtime :: "'w GolangRuntime"
  storeClient :: "'w StoreClient"
  pipelineHash :: string

text \<open>
  \<open>GolangRuntime.executePipeline\<close> is not among the source files. The functions of
  \<open>storeforward.go\<close> take it as a parameter of this type: payload, topic, context,
  transforms, start position, \<open>isRetry\<close>; the result is the error (\<open>None\<close> is nil).
\<close>

type_synonym 'w executePipelineT =
  "byte list \<Rightarrow> string \<Rightarrow> Context \<Rightarrow> 'w AppFunction list \<Rightarrow> go_int \<Rightarrow> bool \<Rightarrow> 'w System
     \<Rightarrow> MessageError option \<times> 'w System"

section \<open>Store and forward (\<open>internal/runtime/storeforward.go\<close>)\<close>

definition DefaultMinRetryInterval :: go_int where
  "DefaultMinRetryInterval = 5000"

definition maxRetryCount :: "ConfigurationStruct \<Rightarrow> go_int" where
  "maxRetryCount config = MaxRetryCount (StoreAndForward (Writable config))"

definition setMaxRetryCount :: "go_int \<Rightarrow> ConfigurationStruct \<Rightarrow> ConfigurationStruct" where
  "setMaxRetryCount n config =
     config\<lparr>Writable := (Writable config)\<lparr>StoreAndForward :=
       (StoreAndForward (Writable config))\<lparr>MaxRetryCount := n\<rparr>\<rparr>\<rparr>"

definition calculatePipelineHash :: "'w storeForwardInfo \<Rightarrow> string" where
  "calculatePipelineHash sf =
     foldl (\<lambda>hash item. hash @ '' '' @ funcName item) ''Pipeline-functions: ''
       (transforms (runtime sf))"

definition storeForLaterRetry ::
  "'w storeForwardInfo \<Rightarrow> byte list \<Rightarrow> Context \<Rightarrow> go_int \<Rightarrow> 'w System \<Rightarrow> 'w System" where
  "storeForLaterRetry sf payload edgexcontext pipelinePosition st =
     (let item = (NewStoredObject (ServiceKey (runtime sf)) payload pipelinePosition (pipelineHash sf))
                   \<lparr>CorrelationID := ctxCorrelationID edgexcontext,
                    EventID := ctxEventID edgexcontext,
                    EventChecksum := ctxEventChecksum edgexcontext\<rparr>;
          st1 = logMsg TRACE ''Storing data for later retry''
                  [S CorrelationHeader, S (ctxCorrelationID edgexcontext)] st
      in if \<not> Enabled (StoreAndForward (Writable (Configuration edgexcontext))) then
           logMsg ERROR ''Failed to store item for later retry''
             [S ''error'', S ''StoreAndForward not enabled'', S CorrelationHeader, S (CorrelationID item)] st1
         else
           (case Store (storeClient sf) item (world st1) of
              (Inl err, w') \<Rightarrow>
                logMsg ERROR ''Failed to store item for later retry''
                  [S ''error'', S err, S CorrelationHeader, S (CorrelationID item)] (st1\<lparr>world := w'\<rparr>)
            | (Inr _, w') \<Rightarrow> st1\<lparr>world := w'\<rparr>))"

definition retryExportFunction ::
  "'w storeForwardInfo \<Rightarrow> 'w executePipelineT \<Rightarrow> StoredObject \<Rightarrow> ConfigurationStruct \<Rightarrow> 'w System
     \<Rightarrow> bool \<times> 'w System" where
  "retryExportFunction sf executePipeline item config st =
     (let edgexContext = \<lparr>ctxCorrelationID = CorrelationID item, ctxEventID = EventID item,
                          ctxEventChecksum = EventChecksum item, Configuration = config,
                          RetryData = None, OutputData = None, ResponseContentType = ''''\<rparr>;
          st1 = logMsg TRACE ''Retrying stored data''
                  [S CorrelationHeader, S (ctxCorrelationID edgexContext)] st;
          (r, st2) = executePipeline (Payload item) '''' edgexContext (transforms (runtime sf))
                       (PipelinePosition item) True st1
      in (r = None, st2))"

text \<open>
  The loop of \<open>processRetryItems\<close>, with the two slices it appends to as accumulators.
\<close>

fun processRetryItemsLoop ::
  "'w storeForwardInfo \<Rightarrow> 'w executePipelineT \<Rightarrow> ConfigurationStruct \<Rightarrow> StoredObject list
     \<Rightarrow> StoredObject list \<times> StoredObject list \<Rightarrow> 'w System
     \<Rightarrow> (StoredObject list \<times> StoredObject list) \<times> 'w System" where
  "processRetryItemsLoop sf ex config [] (itemsToRemove, itemsToUpdate) st =
     ((itemsToRemove, itemsToUpdate), st)"
| "processRetryItemsLoop sf ex config (item # items) (itemsToRemove, itemsToUpdate) st =
     (let validVersion = (Version item = calculatePipelineHash sf) in
      if validVersion then
        (let (success, st1) = retryExportFunction sf ex item config st in
         if \<not> success then
           (let item' = item\<lparr>RetryCount := RetryCount item + 1\<rparr> in
            if maxRetryCount config = 0 \<or> sint (RetryCount item') < sint (maxRetryCount config) then
              processRetryItemsLoop sf ex config items (itemsToRemove, itemsToUpdate @ [item'])
                (logMsg TRACE ''Export retry failed. Incrementing retry count''
                   [S ''retries'', N (RetryCount item'), S CorrelationHeader, S (CorrelationID item')] st1)
            else
              processRetryItemsLoop sf ex config items (itemsToRemove @ [item'], itemsToUpdate)
                (logMsg TRACE ''Max retries exceeded. Removing item from DB''
                   [S ''retries'', N (RetryCount item'), S CorrelationHeader, S (CorrelationID item')] st1))
         else
           processRetryItemsLoop sf ex config items (itemsToRemove @ [item], itemsToUpdate)
             (logMsg TRACE ''Export retry successful. Removing item from DB''
                [S CorrelationHeader, S (CorrelationID item)] st1))
      else
        processRetryItemsLoop sf ex config items (itemsToRemove @ [item], itemsToUpdate)
          (logMsg TRACE
             ''Stored data item's Function Pipeline Version doesn't match current Function Pipeline Version. Removing item from DB''
             [S CorrelationHeader, S (CorrelationID item)] st))"

definition processRetryItems ::
  "'w storeForwardInfo \<Rightarrow> 'w executePipelineT \<Rightarrow> StoredObject list \<Rightarrow> ConfigurationStruct \<Rightarrow> 'w System
     \<Rightarrow> (StoredObject list \<times> StoredObject list) \<times> 'w System" where
  "processRetryItems sf ex items config st = processRetryItemsLoop sf ex config items ([], []) st"

definition removeOne :: "'w storeForwardInfo \<Rightarrow> 'w System \<Rightarrow> StoredObject \<Rightarrow> 'w System" where
  "removeOne sf st item =
     (case RemoveFromStore (storeClient sf) item (world st) of
        (Some err, w') \<Rightarrow>
          logMsg ERROR ''Unable to remove stored data item from DB''
            [S ''error'', S err, S ''objectID'', S (ID item), S CorrelationHeader, S (CorrelationID item)]
            (st\<lparr>world := w'\<rparr>)
      | (None, w') \<Rightarrow> st\<lparr>world := w'\<rparr>)"

definition updateOne :: "'w storeForwardInfo \<Rightarrow> 'w System \<Rightarrow> StoredObject \<Rightarrow> 'w System" where
  "updateOne sf st item =
     (case Update (storeClient sf) item (world st) of
        (Some err, w') \<Rightarrow>
          logMsg ERROR ''Unable to update stored data item in DB''
            [S ''error'', S err, S ''objectID'', S (ID item), S CorrelationHeader, S (CorrelationID item)]
            (st\<lparr>world := w'\<rparr>)
      | (None, w') \<Rightarrow> st\<lparr>world := w'\<rparr>)"

text \<open>
  \<open>retryStoredData\<close>: the two \<open>for ... range\<close> loops over the returned slices are folds
  of the loop bodies \<open>removeOne\<close> and \<open>updateOne\<close>.
\<close>

definition retryStoredData ::
  "'w storeForwardInfo \<Rightarrow> 'w executePipelineT \<Rightarrow> string \<Rightarrow> ConfigurationStruct \<Rightarrow> 'w System \<Rightarrow> 'w System" where
  "retryStoredData sf ex serviceKey config st =
     (case RetrieveFromStore (storeClient sf) serviceKey (world st) of
        (Inl err, w') \<Rightarrow>
          logMsg ERROR ''Unable to load store and forward items from DB'' [S ''error'', S err]
            (st\<lparr>world := w'\<rparr>)
      | (Inr items, w') \<Rightarrow>
          (let st1 = logMsg DEBUG '' %d stored data items found for retrying'' [L (length items)]
                       (st\<lparr>world := w'\<rparr>)
           in if length items > 0 then
                (let ((itemsToRemove, itemsToUpdate), st2) = processRetryItems sf ex items config st1;
                     st3 = logMsg DEBUG '' %d stored data items will be removed post retry''
                             [L (length itemsToRemove)] st2;
                     st4 = logMsg DEBUG '' %d stored data items will be update post retry''
                             [L (length itemsToUpdate)] st3;
                     st5 = foldl (removeOne sf) st4 itemsToRemove
                 in foldl (updateOne sf) st5 itemsToUpdate)
              else st1))"

text \<open>
  The goroutine of \<open>startStoreAndForwardRetryLoop\<close>. What its \<open>select\<close> receives is an
  input of the model: the list of the events in the order in which they are selected. When
  the list is used up the goroutine is still waiting (\<open>Waiting\<close>); it has returned
  (\<open>Exited\<close>) once one of the two contexts is done. The configuration is passed by pointer
  and written to, so the function returns it.
\<close>

datatype LoopEvent = AppCtxDone | EnabledCtxDone | TimerFired

datatype 'w LoopResult = Waiting "'w System" | Exited "'w System"

fun retryLoop ::
  "'w storeForwardInfo \<Rightarrow> 'w executePipelineT \<Rightarrow> string \<Rightarrow> ConfigurationStruct \<Rightarrow> go_int
     \<Rightarrow> LoopEvent list \<Rightarrow> 'w System \<Rightarrow> 'w LoopResult" where
  "retryLoop sf ex serviceKey config retryInterval [] st = Waiting st"
| "retryLoop sf ex serviceKey config retryInterval (AppCtxDone # events) st =
     Exited (logMsg INFO ''StoreAndForward Retry Loop exited'' [] st)"
| "retryLoop sf ex serviceKey config retryInterval (EnabledCtxDone # events) st =
     Exited (logMsg INFO ''StoreAndForward Retry Loop exited'' [] st)"
| "retryLoop sf ex serviceKey config retryInterval (TimerFired # events) st =
     retryLoop sf ex serviceKey config retryInterval events (retryStoredData sf ex serviceKey config st)"

definition startStoreAndForwardRetryLoop ::
  "'w storeForwardInfo \<Rightarrow> 'w executePipelineT \<Rightarrow> string \<Rightarrow> ConfigurationStruct \<Rightarrow> LoopEvent list
     \<Rightarrow> 'w System \<Rightarrow> ConfigurationStruct \<times> 'w LoopResult" where
  "startStoreAndForwardRetryLoop sf ex serviceKey config events st =
     (let retryInterval =
            (if sint (RetryInterval (StoreAndForward (Writable config))) < sint DefaultMinRetryInterval
             then DefaultMinRetryInterval
             else RetryInterval (StoreAndForward (Writable config)));
          (config', st1) =
            (if sint (maxRetryCount config) < 0 then
               (setMaxRetryCount 1 config,
                logMsg INFO ''StoreAndForward MaxRetryCount can not be less than 0, defaulting to 1'' [] st)
             else (config, st));
          st2 = logMsg INFO ''Starting StoreAndForward Retry Loop with %d RetryInterval and %d max retries''
                  [N retryInterval, N (maxRetryCount config')] st1
      in (config', retryLoop sf ex serviceKey config' retryInterval events st2))"

section \<open>The pipeline runtime\<close>

text \<open>
  Modelled from the spec: \<open>GolangRuntime.ProcessMessage\<close> and
  \<open>GolangRuntime.executePipeline\<close> are not among the source files (only their tests and
  their callers are). The definitions follow the execution rules of the specification:
  for stage \<open>i\<close> from the start position to the last one, invoke the transform on the context
  and the previous output; a stage that cannot be invoked or panics gives a stage-crash error
  at position \<open>i\<close>; \<open>continue? = false\<close> with no error value ends the pipeline
  successfully; \<open>continue? = false\<close> with an error value makes that error the result, and
  when the retry-data slot of the context is filled the store-and-forward engine is asked to
  persist the retry data at position \<open>i\<close> (\<open>storeForLaterRetry\<close> above, which looks at
  \<open>Enabled\<close>); otherwise the output becomes the next input. After the last stage the result
  is success. The advisory status is 422 for a decode or stage error (as the runtime's tests
  expect) and 500 for a crash. The list of the positions of the invoked stages is returned
  with the result.
\<close>

datatype ErrorKind = DecodeError | StageError | StageCrash | ConfigurationError

record PipelineError =
  kind :: ErrorKind
  position :: nat
  httpStatus :: nat
  wrapped :: string

datatype 'w StageRun =
    Completed PipelineValue Context "nat list" "'w System"
  | Stopped "PipelineError option" Context "nat list" "'w System"

fun runStages ::
  "'w storeForwardInfo \<Rightarrow> 'w AppFunction list \<Rightarrow> nat \<Rightarrow> PipelineValue \<Rightarrow> Context \<Rightarrow> nat list
     \<Rightarrow> 'w System \<Rightarrow> 'w StageRun" where
  "runStages sf [] i previousOutput ctx invoked st = Completed previousOutput ctx invoked st"
| "runStages sf (t # ts) i previousOutput ctx invoked st =
     (case fn t ctx previousOutput (world st) of
        (None, ctx', w') \<Rightarrow>
          Stopped (Some \<lparr>kind = StageCrash, position = i, httpStatus = 500, wrapped = []\<rparr>)
            ctx' (invoked @ [i]) (st\<lparr>world := w'\<rparr>)
      | (Some (continuePipeline, result), ctx', w') \<Rightarrow>
          if \<not> continuePipeline then
            (case result of
               VError e \<Rightarrow>
                 Stopped (Some \<lparr>kind = StageError, position = i, httpStatus = 422, wrapped = e\<rparr>)
                   ctx' (invoked @ [i])
                   (case RetryData ctx' of
                      None \<Rightarrow> st\<lparr>world := w'\<rparr>
                    | Some retryData \<Rightarrow> storeForLaterRetry sf retryData ctx' (of_nat i) (st\<lparr>world := w'\<rparr>))
             | _ \<Rightarrow> Stopped None ctx' (invoked @ [i]) (st\<lparr>world := w'\<rparr>))
          else runStages sf ts (Suc i) result ctx' (invoked @ [i]) (st\<lparr>world := w'\<rparr>))"

definition executePipeline ::
  "'w storeForwardInfo \<Rightarrow> PipelineValue \<Rightarrow> string \<Rightarrow> Context \<Rightarrow> 'w AppFunction list \<Rightarrow> nat \<Rightarrow> bool
     \<Rightarrow> 'w System \<Rightarrow> PipelineError option \<times> Context \<times> nat list \<times> 'w System" where
  "executePipeline sf inputValue correlationID ctx ts startPosition isRetry st =
     (case runStages sf (drop startPosition ts) startPosition inputValue ctx [] st of
        Completed _ ctx' invoked st' \<Rightarrow> (None, ctx', invoked, st')
      | Stopped e ctx' invoked st' \<Rightarrow> (e, ctx', invoked, st'))"

text \<open>
  \<open>ProcessMessage\<close> of the runtime: the decoder (component C1 of the specification) is a
  parameter; a decode error is terminal, otherwise the whole pipeline runs on the decoded
  value.
\<close>

definition runtimeProcessMessage ::
  "'w storeForwardInfo \<Rightarrow> (MessageEnvelope \<Rightarrow> string + PipelineValue) \<Rightarrow> Context \<Rightarrow> MessageEnvelope
     \<Rightarrow> 'w System \<Rightarrow> PipelineError option \<times> Context \<times> nat list \<times> 'w System" where
  "runtimeProcessMessage sf decode ctx envelope st =
     (case decode envelope of
        Inl e \<Rightarrow> (Some \<lparr>kind = DecodeError, position = 0, httpStatus = 422, wrapped = e\<rparr>, ctx, [], st)
      | Inr inputValue \<Rightarrow>
          executePipeline sf inputValue (envCorrelationID envelope) ctx (transforms (runtime sf)) 0 False st)"

section \<open>The event decoder: legacy events\<close>

text \<open>
  Modelled from the spec: \<open>GolangRuntime.unmarshalV1EventToV2Event\<close> is not among the source
  files (only its test is). The payload is unmarshaled as a legacy event with the JSON or the
  CBOR codec, chosen by the content type of the envelope; the two codecs are library functions
  and parameters here. The legacy event is then normalized into the current shape, and the
  profile name, which the legacy shape does not have, is the literal \<open>Unknown\<close> on the event
  and on every reading. The other fields are carried over as the expected value of
  \<open>TestGolangRuntime_unmarshalV1EventToV2Event\<close> has them.
\<close>

record Codec =
  jsonUnmarshalV1 :: "byte list \<Rightarrow> string + V1Event"
  cborUnmarshalV1 :: "byte list \<Rightarrow> string + V1Event"

definition ApiVersion :: string where
  "ApiVersion = ''v2''"

definition v1ReadingToV2 :: "V1Reading \<Rightarrow> BaseReading" where
  "v1ReadingToV2 r =
     \<lparr>rdApiVersion = ApiVersion, rdId = v1rId r, rdCreated = v1rCreated r, rdOrigin = v1rOrigin r,
      rdDeviceName = v1rDevice r, rdResourceName = v1rName r, rdProfileName = ''Unknown'',
      rdValueType = v1rValueType r, rdValue = v1rValue r, rdBinaryValue = v1rBinaryValue r,
      rdMediaType = v1rMediaType r\<rparr>"

definition v1EventToV2 :: "V1Event \<Rightarrow> Event" where
  "v1EventToV2 e =
     \<lparr>evApiVersion = ApiVersion, evId = v1ID e, evDeviceName = v1Device e, evProfileName = ''Unknown'',
      evCreated = v1Created e, evOrigin = v1Origin e, evReadings = map v1ReadingToV2 (v1Readings e),
      evTags = v1Tags e\<rparr>"

definition unmarshalV1EventToV2Event :: "Codec \<Rightarrow> MessageEnvelope \<Rightarrow> string + Event" where
  "unmarshalV1EventToV2Event codec envelope =
     (if envContentType envelope = ContentTypeJSON then
        (case jsonUnmarshalV1 codec (envPayload envelope) of
           Inl e \<Rightarrow> Inl e
         | Inr v1Event \<Rightarrow> Inr (v1EventToV2 v1Event))
      else if envContentType envelope = ContentTypeCBOR then
        (case cborUnmarshalV1 codec (envPayload envelope) of
           Inl e \<Rightarrow> Inl e
         | Inr v1Event \<Rightarrow> Inr (v1EventToV2 v1Event))
      else Inl ''unsupported content type'')"


section \<open>Custom trigger factories (\<open>appsdk/triggerfactory.go\<close>)\<close>

text \<open>
  Modelled from the spec: the constants \<open>TriggerTypeMessageBus\<close>, \<open>TriggerTypeHTTP\<close> and
  \<open>TriggerTypeMQTT\<close> are not among the source files; the specification gives the names of the
  three built-in trigger types.
\<close>

definition TriggerTypeMessageBus :: string where
  "TriggerTypeMessageBus = ''EDGEX-MESSAGEBUS''"

definition TriggerTypeHTTP :: string where
  "TriggerTypeHTTP = ''HTTP''"

definition TriggerTypeMQTT :: string where
  "TriggerTypeMQTT = ''EXTERNAL-MQTT''"

text \<open>
  The SDK object, as far as \<open>RegisterCustomTriggerFactory\<close> reads and writes it. The registry
  is a Go map that may be nil (\<open>None\<close>). The closure that is registered builds the
  \<open>TriggerConfig\<close> from the SDK it is later applied to and calls the user's factory with it;
  of the SDK only the configuration is kept here, and so of the \<open>TriggerConfig\<close>.
  \<open>strings.ToUpper\<close> is a library function and a parameter of the model.
\<close>

record TriggerConfig =
  tcConfig :: ConfigurationStruct

record 't AppFunctionsSDK =
  sdkConfig :: ConfigurationStruct
  customTriggerFactories :: "(string \<rightharpoonup> (ConfigurationStruct \<Rightarrow> string + 't)) option"

definition RegisterCustomTriggerFactory ::
  "(string \<Rightarrow> string) \<Rightarrow> 't AppFunctionsSDK \<Rightarrow> string \<Rightarrow> (TriggerConfig \<Rightarrow> string + 't)
     \<Rightarrow> string option \<times> 't AppFunctionsSDK" where
  "RegisterCustomTriggerFactory ToUpper sdk name factory =
     (let nu = ToUpper name in
      if nu = TriggerTypeMessageBus \<or> nu = TriggerTypeHTTP \<or> nu = TriggerTypeMQTT then
        (Some (''cannot register custom trigger for builtin type ('' @ name @ '')''), sdk)
      else
        (let factories = (case customTriggerFactories sdk of None \<Rightarrow> Map.empty | Some m \<Rightarrow> m)
         in (None, sdk\<lparr>customTriggerFactories :=
                         Some (factories(nu \<mapsto> (\<lambda>config. factory \<lparr>tcConfig = config\<rparr>)))\<rparr>)))"

section \<open>The message bus trigger\<close>

text \<open>
  \<open>processMessage\<close> of the message bus trigger. The two versions of the trigger among the
  source files differ in how the context is built and read (fields in one, accessor methods in
  the other) and in where the publish topic is configured; what they do with the response is
  the same, and one model stands for both. The runtime's \<open>ProcessMessage\<close> and the
  messaging client's \<open>Publish\<close> are fields of the trigger. Indexing a slice out of range
  panics, so the function returns a \<open>GoResult\<close>.
\<close>

datatype 'a GoResult = Returned 'a | Panicked string

record 'w Trigger =
  trgConfiguration :: ConfigurationStruct
  trgPublishTopic :: string
  trgProcessMessage :: "Context \<Rightarrow> MessageEnvelope \<Rightarrow> 'w System \<Rightarrow> MessageError option \<times> Context \<times> 'w System"
  trgPublish :: "MessageEnvelope \<Rightarrow> string \<Rightarrow> 'w \<Rightarrow> string option \<times> 'w"

definition publishOutputEnvelope ::
  "'w Trigger \<Rightarrow> MessageEnvelope \<Rightarrow> MessageEnvelope \<Rightarrow> 'w System \<Rightarrow> 'w System" where
  "publishOutputEnvelope trigger message outputEnvelope st =
     (case trgPublish trigger outputEnvelope (trgPublishTopic trigger) (world st) of
        (Some err, w') \<Rightarrow>
          logMsg ERROR ''Failed to publish Message to bus, %v'' [S err] (st\<lparr>world := w'\<rparr>)
      | (None, w') \<Rightarrow>
          logMsg TRACE ''%s=%s'' [S CorrelationHeader, S (envCorrelationID message)]
            (logMsg DEBUG ''Published message to bus on '%s' topic'' [S (trgPublishTopic trigger)]
               (st\<lparr>world := w'\<rparr>)))"

definition newContext :: "'w Trigger \<Rightarrow> MessageEnvelope \<Rightarrow> Context" where
  "newContext trigger message =
     \<lparr>ctxCorrelationID = envCorrelationID message, ctxEventID = [], ctxEventChecksum = [],
      Configuration = trgConfiguration trigger, RetryData = None, OutputData = None,
      ResponseContentType = []\<rparr>"

definition logReceived :: "string \<Rightarrow> MessageEnvelope \<Rightarrow> 'w System \<Rightarrow> 'w System" where
  "logReceived triggerTopic message st =
     logMsg TRACE ''%s=%s'' [S CorrelationHeader, S (envCorrelationID message)]
       (logMsg DEBUG ''Received message from MessageBus on topic '%s'. Content-Type=%s''
          [S triggerTopic, S (envContentType message)] st)"

definition processMessage ::
  "'w Trigger \<Rightarrow> string \<Rightarrow> MessageEnvelope \<Rightarrow> 'w System \<Rightarrow> 'w System GoResult" where
  "processMessage trigger triggerTopic message st =
     (let edgexContext = newContext trigger message;
          (messageError, ctx, st3) =
             trgProcessMessage trigger edgexContext message (logReceived triggerTopic message st)
      in if messageError \<noteq> None then Returned st3
         else
           (case OutputData ctx of
              None \<Rightarrow> Returned st3
            | Some outputData \<Rightarrow>
                (case (if ResponseContentType ctx \<noteq> [] then Returned (ResponseContentType ctx)
                       else (case outputData of
                               [] \<Rightarrow> Panicked ''index out of range [0] with length 0''
                             | b # _ \<Rightarrow>
                                 Returned (if b \<noteq> 0x7B then ContentTypeCBOR else ContentTypeJSON))) of
                   Panicked p \<Rightarrow> Panicked p
                 | Returned contentType \<Rightarrow>
                     Returned (publishOutputEnvelope trigger message
                       \<lparr>envCorrelationID = ctxCorrelationID ctx, envPayload = outputData,
                        envContentType = contentType\<rparr> st3))))"

section \<open>Example inputs\<close>

text \<open>
  Concrete inputs on which the theorems below are instantiated: a world with an in-memory
  store (in the manner of the mock store client of the runtime's tests), the names of the
  transforms that were called, and the envelopes that were published.
\<close>

record ExampleWorld =
  db :: "StoredObject list"
  calls :: "string list"
  published :: "(string \<times> MessageEnvelope) list"

definition emptyWorld :: ExampleWorld where
  "emptyWorld = \<lparr>db = [], calls = [], published = []\<rparr>"

definition initialSystem :: "ExampleWorld System" where
  "initialSystem = \<lparr>logs = [], world = emptyWorld\<rparr>"

definition memStoreClient :: "ExampleWorld StoreClient" where
  "memStoreClient =
     \<lparr>Store = (\<lambda>item w.
         (Inr (replicate (Suc (length (db w))) (CHR ''i'')),
          w\<lparr>db := db w @ [item\<lparr>ID := replicate (Suc (length (db w))) (CHR ''i'')\<rparr>]\<rparr>)),
      RetrieveFromStore = (\<lambda>key w. (Inr (filter (\<lambda>i. AppServiceKey i = key) (db w)), w)),
      Update = (\<lambda>item w. (None, w\<lparr>db := map (\<lambda>i. if ID i = ID item then item else i) (db w)\<rparr>)),
      RemoveFromStore = (\<lambda>item w. (None, w\<lparr>db := filter (\<lambda>i. ID i \<noteq> ID item) (db w)\<rparr>))\<rparr>"

definition transformPassthru :: "ExampleWorld AppFunction" where
  "transformPassthru =
     \<lparr>funcName = ''runtime.transformPassthru'',
      fn = (\<lambda>ctx v w. (Some (True, v), ctx, w\<lparr>calls := calls w @ [''transformPassthru'']\<rparr>))\<rparr>"

definition transformStop :: "ExampleWorld AppFunction" where
  "transformStop =
     \<lparr>funcName = ''runtime.transformStop'',
      fn = (\<lambda>ctx v w. (Some (False, VString ''Transform1Result''), ctx,
                        w\<lparr>calls := calls w @ [''transformStop'']\<rparr>))\<rparr>"

definition transformHello :: "ExampleWorld AppFunction" where
  "transformHello =
     \<lparr>funcName = ''runtime.transformHello'',
      fn = (\<lambda>ctx v w. (Some (True, VString ''Hello''), ctx, w\<lparr>calls := calls w @ [''transformHello'']\<rparr>))\<rparr>"

text \<open>An export stage that fails and fills the retry-data slot, as the HTTP sender does.\<close>

definition transformFailingExport :: "ExampleWorld AppFunction" where
  "transformFailingExport =
     \<lparr>funcName = ''transforms.HTTPSender.HTTPPost'',
      fn = (\<lambda>ctx v w. (Some (False, VError ''connection refused''), ctx\<lparr>RetryData := Some [77, 121]\<rparr>,
                        w\<lparr>calls := calls w @ [''HTTPPost'']\<rparr>))\<rparr>"

definition exampleHash :: string where
  "exampleHash = ''Pipeline-functions:  runtime.transformPassthru transforms.HTTPSender.HTTPPost''"

definition exampleSf :: "ExampleWorld AppFunction list \<Rightarrow> ExampleWorld storeForwardInfo" where
  "exampleSf ts =
     \<lparr>runtime = \<lparr>ServiceKey = ''AppService-UnitTest'', transforms = ts\<rparr>,
      storeClient = memStoreClient, pipelineHash = exampleHash\<rparr>"

definition exportSf :: "ExampleWorld storeForwardInfo" where
  "exportSf = exampleSf [transformPassthru, transformFailingExport]"

definition exampleConfig :: "bool \<Rightarrow> go_int \<Rightarrow> ConfigurationStruct" where
  "exampleConfig enabled maxRetries =
     \<lparr>Writable = \<lparr>StoreAndForward =
        \<lparr>Enabled = enabled, RetryInterval = 1000, MaxRetryCount = maxRetries\<rparr>\<rparr>\<rparr>"

definition exampleContext :: "ConfigurationStruct \<Rightarrow> Context" where
  "exampleContext config =
     \<lparr>ctxCorrelationID = ''CorrelationID'', ctxEventID = [], ctxEventChecksum = [],
      Configuration = config, RetryData = None, OutputData = None, ResponseContentType = []\<rparr>"

definition failingRetry :: "ExampleWorld executePipelineT" where
  "failingRetry = (\<lambda>payload topic ctx ts startPosition isRetry st.
     (Some \<lparr>Err = ''connection refused'', ErrorCode = 422\<rparr>, st))"

definition exampleItem :: "string \<Rightarrow> string \<Rightarrow> go_int \<Rightarrow> StoredObject" where
  "exampleItem objectID version retries =
     \<lparr>ID = objectID, AppServiceKey = ''AppService-UnitTest'', Payload = [77, 121],
      RetryCount = retries, PipelinePosition = 1, Version = version,
      CorrelationID = ''CorrelationID'', EventID = [], EventChecksum = []\<rparr>"

definition staleLogged :: "StoredObject \<Rightarrow> ExampleWorld System \<Rightarrow> ExampleWorld System" where
  "staleLogged item st =
     logMsg TRACE
       ''Stored data item's Function Pipeline Version doesn't match current Function Pipeline Version. Removing item from DB''
       [S CorrelationHeader, S (CorrelationID item)] st"

definition exampleMessage :: MessageEnvelope where
  "exampleMessage =
     \<lparr>envCorrelationID = ''123-234-345-456'', envPayload = [123, 125], envContentType = ContentTypeJSON\<rparr>"

definition decodeBytes :: "MessageEnvelope \<Rightarrow> string + PipelineValue" where
  "decodeBytes envelope = Inr (VBytes (envPayload envelope))"

text \<open>
  A runtime whose pipeline completes and leaves the given response payload and response
  content type in the context, and a trigger around it.
\<close>

definition respondWith ::
  "byte list \<Rightarrow> string \<Rightarrow> Context \<Rightarrow> MessageEnvelope \<Rightarrow> ExampleWorld System
     \<Rightarrow> MessageError option \<times> Context \<times> ExampleWorld System" where
  "respondWith outputData contentType =
     (\<lambda>ctx envelope st. (None, ctx\<lparr>OutputData := Some outputData, ResponseContentType := contentType\<rparr>, st))"

definition exampleTrigger :: "byte list \<Rightarrow> string \<Rightarrow> ExampleWorld Trigger" where
  "exampleTrigger outputData contentType =
     \<lparr>trgConfiguration = exampleConfig False 0, trgPublishTopic = ''events'',
      trgProcessMessage = respondWith outputData contentType,
      trgPublish = (\<lambda>envelope topic w. (None, w\<lparr>published := published w @ [(topic, envelope)]\<rparr>))\<rparr>"

text \<open>The legacy event and the expected current event of the runtime's tests.\<close>

definition testV1Event :: V1Event where
  "testV1Event =
     \<lparr>v1ID = ''82eb2e26-0f24-48aa-ae4c-de9dac3fb9bc'', v1Device = ''FamilyRoomThermostat'',
      v1Created = 1600000000, v1Origin = 1600000000,
      v1Readings =
        [\<lparr>v1rId = ''82eb2e26-0f24-48aa-ae4c-de9dac3f1234'', v1rCreated = 1600000000,
          v1rOrigin = 1600000000, v1rDevice = ''FamilyRoomThermostat'', v1rName = ''Temperature'',
          v1rValueType = ''Int64'', v1rValue = ''72'', v1rBinaryValue = [], v1rMediaType = []\<rparr>],
      v1Tags = []\<rparr>"

definition expectedEvent :: Event where
  "expectedEvent =
     \<lparr>evApiVersion = ''v2'', evId = ''82eb2e26-0f24-48aa-ae4c-de9dac3fb9bc'',
      evDeviceName = ''FamilyRoomThermostat'', evProfileName = ''Unknown'',
      evCreated = 1600000000, evOrigin = 1600000000,
      evReadings =
        [\<lparr>rdApiVersion = ''v2'', rdId = ''82eb2e26-0f24-48aa-ae4c-de9dac3f1234'',
          rdCreated = 1600000000, rdOrigin = 1600000000, rdDeviceName = ''FamilyRoomThermostat'',
          rdResourceName = ''Temperature'', rdProfileName = ''Unknown'', rdValueType = ''Int64'',
          rdValue = ''72'', rdBinaryValue = [], rdMediaType = []\<rparr>],
      evTags = []\<rparr>"

text \<open>A codec that knows one payload, standing for the JSON and CBOR libraries.\<close>

definition exampleCodec :: Codec where
  "exampleCodec =
     \<lparr>jsonUnmarshalV1 = (\<lambda>payload. if payload = [123, 125] then Inr testV1Event else Inl ''invalid JSON''),
      cborUnmarshalV1 = (\<lambda>payload. if payload = [161] then Inr testV1Event else Inl ''invalid CBOR'')\<rparr>"

text \<open>\<open>strings.ToUpper\<close> on ASCII names.\<close>

definition asciiToUpper :: "string \<Rightarrow> string" where
  "asciiToUpper s =
     map (\<lambda>c. case map_of (zip ''abcdefghijklmnopqrstuvwxyz'' ''ABCDEFGHIJKLMNOPQRSTUVWXYZ'') c of
                None \<Rightarrow> c
              | Some u \<Rightarrow> u) s"

definition exampleSDK :: "string AppFunctionsSDK" where
  "exampleSDK = \<lparr>sdkConfig = exampleConfig False 0, customTriggerFactories = None\<rparr>"

definition exampleFactory :: "TriggerConfig \<Rightarrow> string + string" where
  "exampleFactory tc = Inr ''custom trigger''"

section \<open>Properties\<close>

subsection \<open>The loop of \<open>processRetryItems\<close>\<close>

text \<open>
  The loop only ever appends to its two accumulators, so its result on a list is the
  concatenation of its results on the parts, and each item contributes exactly one entry to
  exactly one of the two lists.
\<close>

lemma loop_Cons:
  "processRetryItemsLoop sf ex config (x # xs) (rm, up) st =
     (case processRetryItemsLoop sf ex config [x] ([], []) st of
        ((r, u), st') \<Rightarrow> processRetryItemsLoop sf ex config xs (rm @ r, up @ u) st')"
  by (simp add: Let_def split: prod.splits)

lemma loop_acc:
  "processRetryItemsLoop sf ex config xs (rm, up) st =
     (case processRetryItemsLoop sf ex config xs ([], []) st of
        ((r, u), st') \<Rightarrow> ((rm @ r, up @ u), st'))"
proof (induction xs arbitrary: rm up st)
  case Nil
  show ?case by simp
next
  case (Cons x xs)
  obtain r u st' where one: "processRetryItemsLoop sf ex config [x] ([], []) st = ((r, u), st')"
    by (metis prod.exhaust)
  obtain r2 u2 st2 where rest: "processRetryItemsLoop sf ex config xs ([], []) st' = ((r2, u2), st2)"
    by (metis prod.exhaust)
  have a: "processRetryItemsLoop sf ex config (x # xs) (rm, up) st = (((rm @ r) @ r2, (up @ u) @ u2), st2)"
    unfolding loop_Cons [of sf ex config x xs rm up st] one
    using Cons.IH [of "rm @ r" "up @ u" st'] rest by simp
  have b: "processRetryItemsLoop sf ex config (x # xs) ([], []) st = ((r @ r2, u @ u2), st2)"
    unfolding loop_Cons [of sf ex config x xs "[]" "[]" st] one
    using Cons.IH [of r u st'] rest by simp
  show ?case unfolding a b by simp
qed

lemma loop_append:
  "processRetryItemsLoop sf ex config (xs @ ys) acc st =
     (case processRetryItemsLoop sf ex config xs acc st of
        (acc', st') \<Rightarrow> processRetryItemsLoop sf ex config ys acc' st')"
proof (induction xs arbitrary: acc st)
  case Nil
  show ?case by (cases acc) simp
next
  case (Cons x xs)
  obtain rm up where acc: "acc = (rm, up)" by (cases acc)
  show ?case
    unfolding acc append_Cons loop_Cons [of sf ex config x _ rm up st]
    by (simp add: Cons.IH split: prod.splits)
qed

lemma loop_length:
  "processRetryItemsLoop sf ex config xs ([], []) st = ((r, u), st') \<Longrightarrow> length r + length u = length xs"
proof (induction xs arbitrary: r u st st')
  case Nil
  then show ?case by simp
next
  case (Cons x xs)
  obtain r1 u1 st1 where one: "processRetryItemsLoop sf ex config [x] ([], []) st = ((r1, u1), st1)"
    by (metis prod.exhaust)
  obtain r2 u2 st2 where rest: "processRetryItemsLoop sf ex config xs ([], []) st1 = ((r2, u2), st2)"
    by (metis prod.exhaust)
  have l1: "length r1 + length u1 = 1"
    using one by (auto simp: Let_def split: prod.splits if_splits)
  have "processRetryItemsLoop sf ex config (x # xs) ([], []) st = ((r1 @ r2, u1 @ u2), st2)"
    unfolding loop_Cons [of sf ex config x xs "[]" "[]" st] one
    using loop_acc [of sf ex config xs r1 u1 st1] rest by simp
  with Cons.prems have "r = r1 @ r2" "u = u1 @ u2" by simp_all
  with l1 Cons.IH [OF rest] show ?case by simp
qed

lemma loop_single:
  assumes "processRetryItemsLoop sf ex config [x] ([], []) st = ((r, u), st')"
  shows "\<exists>n. (r = [x\<lparr>RetryCount := n\<rparr>] \<and> u = []) \<or> (r = [] \<and> u = [x\<lparr>RetryCount := n\<rparr>])"
proof -
  have "(r = [x] \<and> u = []) \<or> (r = [x\<lparr>RetryCount := RetryCount x + 1\<rparr>] \<and> u = [])
          \<or> (r = [] \<and> u = [x\<lparr>RetryCount := RetryCount x + 1\<rparr>])"
    using assms by (auto simp: Let_def split: prod.splits if_splits)
  then consider "r = [x\<lparr>RetryCount := RetryCount x\<rparr>] \<and> u = []"
    | "r = [x\<lparr>RetryCount := RetryCount x + 1\<rparr>] \<and> u = []"
    | "r = [] \<and> u = [x\<lparr>RetryCount := RetryCount x + 1\<rparr>]"
    by auto
  then show ?thesis by cases blast+
qed

lemma loop_mset:
  "processRetryItemsLoop sf ex config xs ([], []) st = ((r, u), st') \<Longrightarrow>
     mset (map (\<lambda>i. i\<lparr>RetryCount := 0\<rparr>) r) + mset (map (\<lambda>i. i\<lparr>RetryCount := 0\<rparr>) u)
       = mset (map (\<lambda>i. i\<lparr>RetryCount := 0\<rparr>) xs)"
proof (induction xs arbitrary: r u st st')
  case Nil
  then show ?case by simp
next
  case (Cons x xs)
  obtain r1 u1 st1 where one: "processRetryItemsLoop sf ex config [x] ([], []) st = ((r1, u1), st1)"
    by (metis prod.exhaust)
  obtain r2 u2 st2 where rest: "processRetryItemsLoop sf ex config xs ([], []) st1 = ((r2, u2), st2)"
    by (metis prod.exhaust)
  have l1: "mset (map (\<lambda>i. i\<lparr>RetryCount := 0\<rparr>) r1) + mset (map (\<lambda>i. i\<lparr>RetryCount := 0\<rparr>) u1)
              = {#x\<lparr>RetryCount := 0\<rparr>#}"
    using loop_single [OF one] by auto
  have "processRetryItemsLoop sf ex config (x # xs) ([], []) st = ((r1 @ r2, u1 @ u2), st2)"
    unfolding loop_Cons [of sf ex config x xs "[]" "[]" st] one
    using loop_acc [of sf ex config xs r1 u1 st1] rest by simp
  with Cons.prems have ru: "r = r1 @ r2" "u = u1 @ u2" by simp_all
  have "mset (map (\<lambda>i. i\<lparr>RetryCount := 0\<rparr>) r) + mset (map (\<lambda>i. i\<lparr>RetryCount := 0\<rparr>) u)
          = (mset (map (\<lambda>i. i\<lparr>RetryCount := 0\<rparr>) r1) + mset (map (\<lambda>i. i\<lparr>RetryCount := 0\<rparr>) u1))
            + (mset (map (\<lambda>i. i\<lparr>RetryCount := 0\<rparr>) r2) + mset (map (\<lambda>i. i\<lparr>RetryCount := 0\<rparr>) u2))"
    unfolding ru by simp
  also have "\<dots> = {#x\<lparr>RetryCount := 0\<rparr>#} + mset (map (\<lambda>i. i\<lparr>RetryCount := 0\<rparr>) xs)"
    unfolding l1 Cons.IH [OF rest] ..
  finally show ?case by simp
qed

lemma loop_mset_ID:
  assumes "processRetryItemsLoop sf ex config xs ([], []) st = ((r, u), st')"
  shows "mset (map ID r) + mset (map ID u) = mset (map ID xs)"
proof -
  have "image_mset ID (mset (map (\<lambda>i. i\<lparr>RetryCount := 0\<rparr>) r) + mset (map (\<lambda>i. i\<lparr>RetryCount := 0\<rparr>) u))
          = image_mset ID (mset (map (\<lambda>i. i\<lparr>RetryCount := 0\<rparr>) xs))"
    using loop_mset [OF assms] by simp
  then show ?thesis by (simp add: image_mset.compositionality comp_def)
qed

lemma loop_members:
  "processRetryItemsLoop sf ex config xs ([], []) st = ((r, u), st') \<Longrightarrow>
     (\<forall>x \<in> set u. \<exists>y \<in> set xs. x = y\<lparr>RetryCount := RetryCount y + 1\<rparr>
                        \<and> Version y = calculatePipelineHash sf
                        \<and> (maxRetryCount config = 0 \<or> sint (RetryCount x) < sint (maxRetryCount config)))
   \<and> (\<forall>x \<in> set r. Version x \<noteq> calculatePipelineHash sf \<longrightarrow> x \<in> set xs)"
proof (induction xs arbitrary: r u st st')
  case Nil
  then show ?case by simp
next
  case (Cons x xs)
  obtain r1 u1 st1 where one: "processRetryItemsLoop sf ex config [x] ([], []) st = ((r1, u1), st1)"
    by (metis prod.exhaust)
  obtain r2 u2 st2 where rest: "processRetryItemsLoop sf ex config xs ([], []) st1 = ((r2, u2), st2)"
    by (metis prod.exhaust)
  have "processRetryItemsLoop sf ex config (x # xs) ([], []) st = ((r1 @ r2, u1 @ u2), st2)"
    unfolding loop_Cons [of sf ex config x xs "[]" "[]" st] one
    using loop_acc [of sf ex config xs r1 u1 st1] rest by simp
  with Cons.prems have ru: "r = r1 @ r2" "u = u1 @ u2" by simp_all
  have s1: "(\<forall>z \<in> set u1. z = x\<lparr>RetryCount := RetryCount x + 1\<rparr>
                 \<and> Version x = calculatePipelineHash sf
                 \<and> (maxRetryCount config = 0 \<or> sint (RetryCount z) < sint (maxRetryCount config)))
          \<and> (\<forall>z \<in> set r1. Version z \<noteq> calculatePipelineHash sf \<longrightarrow> z = x)"
    using one by (auto simp: Let_def split: prod.splits if_splits)
  from Cons.IH [OF rest] s1 show ?case unfolding ru by auto
qed

text \<open>
  Incrementing a non-negative counter that is not the largest \<open>int\<close> does not wrap around.
\<close>

lemma sint_plus_one:
  fixes x :: go_int
  assumes "0 \<le> sint x" and "x \<noteq> 0x7FFFFFFFFFFFFFFF"
  shows "sint (x + 1) = sint x + 1"
proof -
  have lt: "sint x < 2 ^ 63"
    using sint_lt [of x] by simp
  have "sint x \<noteq> 2 ^ 63 - 1"
  proof
    assume "sint x = 2 ^ 63 - 1"
    then have "sint x = sint (0x7FFFFFFFFFFFFFFF :: go_int)" by simp
    then have "x = 0x7FFFFFFFFFFFFFFF" by (rule signed_word_eqI)
    with assms(2) show False by simp
  qed
  with lt have b: "sint x + 1 < 2 ^ 63" by simp
  have "sint (x + 1) = signed_take_bit 63 (sint x + sint (1 :: go_int))"
    by (simp add: sint_word_ariths)
  also have "\<dots> = signed_take_bit (63::nat) (sint x + 1)" by simp
  also have "\<dots> = sint x + 1"
    using assms(1) b by (intro signed_take_bit_int_eq_self) simp_all
  finally show ?thesis .
qed

text \<open>
  The definitions that the evaluation of the example inputs unfolds.
\<close>

lemmas example_defs =
  exportSf_def exampleSf_def memStoreClient_def transformPassthru_def transformFailingExport_def
  transformStop_def transformHello_def exampleHash_def exampleConfig_def exampleContext_def
  failingRetry_def exampleItem_def initialSystem_def emptyWorld_def staleLogged_def
  calculatePipelineHash_def retryExportFunction_def maxRetryCount_def setMaxRetryCount_def
  logMsg_def CorrelationHeader_def

text \<open>
  Claim C1, amended. Take any position of the list of stored items: \<open>pre\<close> are the items
  before it, \<open>item\<close> the item at it and \<open>post\<close> the items after it, and
  \<open>(rm0, up0)\<close> and \<open>st0\<close> are the two lists and the state after the items before it.
  If the pipeline hash of the item is the current hash and its retry fails in that state, then
  \<open>processRetryItems\<close> increments its \<open>RetryCount\<close> by exactly 1 (machine addition) and
  places the incremented item in exactly one list, right after what the earlier items
  contributed: in the remove list if \<open>MaxRetryCount \<noteq> 0\<close> and the incremented count is
  \<open>\<ge> MaxRetryCount\<close>, and in the update list otherwise, which includes every item when
  \<open>MaxRetryCount = 0\<close>. For \<open>MaxRetryCount \<ge> 0\<close> this is the claim as it is written; the
  claim's condition \<open>MaxRetryCount > 0\<close> has become \<open>MaxRetryCount \<noteq> 0\<close>, because the code
  tests \<open>MaxRetryCount == 0 || RetryCount < MaxRetryCount\<close> and so removes the item when
  \<open>MaxRetryCount\<close> is negative.
\<close>

theorem processRetryItems_failed_retry:
  assumes pre: "processRetryItems sf ex pre config st = ((rm0, up0), st0)"
    and valid: "Version item = calculatePipelineHash sf"
    and failed: "\<not> fst (retryExportFunction sf ex item config st0)"
  shows "\<exists>rm2 up2. length rm2 + length up2 = length post \<and>
           fst (processRetryItems sf ex (pre @ item # post) config st) =
             (if maxRetryCount config \<noteq> 0 \<and> sint (maxRetryCount config) \<le> sint (RetryCount item + 1)
              then (rm0 @ item\<lparr>RetryCount := RetryCount item + 1\<rparr> # rm2, up0 @ up2)
              else (rm0 @ rm2, up0 @ item\<lparr>RetryCount := RetryCount item + 1\<rparr> # up2))"
proof -
  let ?item' = "item\<lparr>RetryCount := RetryCount item + 1\<rparr>"
  let ?rem = "maxRetryCount config \<noteq> 0 \<and> sint (maxRetryCount config) \<le> sint (RetryCount item + 1)"
  obtain r1 u1 st1 where one: "processRetryItemsLoop sf ex config [item] ([], []) st0 = ((r1, u1), st1)"
    by (metis prod.exhaust)
  obtain rm2 up2 st2 where rest: "processRetryItemsLoop sf ex config post ([], []) st1 = ((rm2, up2), st2)"
    by (metis prod.exhaust)
  have ru: "(r1, u1) = (if ?rem then ([?item'], []) else ([], [?item']))"
    using one valid failed by (auto simp: Let_def split: prod.splits if_splits)
  have "processRetryItemsLoop sf ex config (pre @ item # post) ([], []) st
          = processRetryItemsLoop sf ex config (item # post) (rm0, up0) st0"
    using pre by (simp add: loop_append processRetryItems_def)
  also have "\<dots> = processRetryItemsLoop sf ex config post (rm0 @ r1, up0 @ u1) st1"
    unfolding loop_Cons [of sf ex config item post rm0 up0 st0] one by simp
  also have "\<dots> = ((rm0 @ r1 @ rm2, up0 @ u1 @ up2), st2)"
    using loop_acc [of sf ex config post "rm0 @ r1" "up0 @ u1" st1] rest by simp
  finally have "fst (processRetryItems sf ex (pre @ item # post) config st) = (rm0 @ r1 @ rm2, up0 @ u1 @ up2)"
    by (simp add: processRetryItems_def)
  with ru have "fst (processRetryItems sf ex (pre @ item # post) config st) =
             (if ?rem then (rm0 @ ?item' # rm2, up0 @ up2) else (rm0 @ rm2, up0 @ ?item' # up2))"
    by (auto split: if_splits)
  with loop_length [OF rest] show ?thesis by blast
qed

text \<open>
  On the example: a stale item, then an item with the current hash whose retry fails, with
  \<open>MaxRetryCount = 3\<close>. The second item is updated with count 1.
\<close>

theorem processRetryItems_failed_retry_witness:
  "processRetryItems exportSf failingRetry [exampleItem ''i'' ''old'' 0] (exampleConfig True 3) initialSystem
     = (([exampleItem ''i'' ''old'' 0], []), staleLogged (exampleItem ''i'' ''old'' 0) initialSystem)
   \<and> Version (exampleItem ''ii'' exampleHash 0) = calculatePipelineHash exportSf
   \<and> \<not> fst (retryExportFunction exportSf failingRetry (exampleItem ''ii'' exampleHash 0) (exampleConfig True 3)
              (staleLogged (exampleItem ''i'' ''old'' 0) initialSystem))
   \<and> fst (processRetryItems exportSf failingRetry
            ([exampleItem ''i'' ''old'' 0] @ exampleItem ''ii'' exampleHash 0 # []) (exampleConfig True 3) initialSystem)
       = ([exampleItem ''i'' ''old'' 0], [exampleItem ''ii'' exampleHash 1])"
proof -
  have h1: "processRetryItems exportSf failingRetry [exampleItem ''i'' ''old'' 0] (exampleConfig True 3) initialSystem
     = (([exampleItem ''i'' ''old'' 0], []), staleLogged (exampleItem ''i'' ''old'' 0) initialSystem)"
    by (simp add: processRetryItems_def example_defs)
  have h2: "Version (exampleItem ''ii'' exampleHash 0) = calculatePipelineHash exportSf"
    by (simp add: example_defs)
  have h3: "\<not> fst (retryExportFunction exportSf failingRetry (exampleItem ''ii'' exampleHash 0) (exampleConfig True 3)
              (staleLogged (exampleItem ''i'' ''old'' 0) initialSystem))"
    by (simp add: example_defs)
  have c: "fst (processRetryItems exportSf failingRetry
            ([exampleItem ''i'' ''old'' 0] @ exampleItem ''ii'' exampleHash 0 # []) (exampleConfig True 3) initialSystem)
       = ([exampleItem ''i'' ''old'' 0], [exampleItem ''ii'' exampleHash 1])"
    using processRetryItems_failed_retry [OF h1 h2 h3, of "[]"] by (simp add: example_defs)
  from h1 h2 h3 c show ?thesis by blast
qed

text \<open>
  Claim C1 as it is written fails for a negative \<open>MaxRetryCount\<close>: with
  \<open>MaxRetryCount = -1\<close> the condition \<open>MaxRetryCount > 0\<close> is false, so the claim places the
  failed item in the update list, but \<open>processRetryItems\<close> returns it in the remove list and
  returns an empty update list.
\<close>

theorem processRetryItems_negative_max_counterexample:
  "\<not> 0 < sint (maxRetryCount (exampleConfig True (- 1)))
   \<and> Version (exampleItem ''i'' exampleHash 0) = calculatePipelineHash exportSf
   \<and> \<not> fst (retryExportFunction exportSf failingRetry (exampleItem ''i'' exampleHash 0)
              (exampleConfig True (- 1)) initialSystem)
   \<and> fst (processRetryItems exportSf failingRetry [exampleItem ''i'' exampleHash 0]
            (exampleConfig True (- 1)) initialSystem)
       = ([exampleItem ''i'' exampleHash 1], [])"
  by (simp add: processRetryItems_def example_defs)

text \<open>
  Claim C2. Take any position of the list of stored items: \<open>pre\<close> are the items before
  it, \<open>item\<close> the item at it, \<open>post\<close> the items after it, and \<open>(rm0, up0)\<close> and
  \<open>st0\<close> the two lists and the state after the items before it. If the pipeline hash of
  the item differs from the current hash, which \<open>calculatePipelineHash\<close> computes from the
  current transforms, then after the item the remove list has gained the item itself, with its
  \<open>RetryCount\<close> unchanged, the update list is unchanged, and the state has gained one trace
  entry and nothing else: the pipeline was not executed (\<open>retryExportFunction\<close> would have
  logged and run it). In the final result the item follows what the earlier items contributed to
  the remove list. Retry attempts are counted only for items whose hash matches: every entry
  of the update list is an input item with the current hash and its count incremented, and
  every entry of the remove list whose hash is not the current one is an input item as it was.
\<close>

theorem processRetryItems_stale_hash:
  assumes pre: "processRetryItems sf ex pre config st = ((rm0, up0), st0)"
    and stale: "Version item \<noteq> calculatePipelineHash sf"
  shows "processRetryItems sf ex (pre @ [item]) config st =
           ((rm0 @ [item], up0),
            logMsg TRACE
              ''Stored data item's Function Pipeline Version doesn't match current Function Pipeline Version. Removing item from DB''
              [S CorrelationHeader, S (CorrelationID item)] st0)
       \<and> (\<exists>rm2 up2. length rm2 + length up2 = length post \<and>
             fst (processRetryItems sf ex (pre @ item # post) config st) = (rm0 @ item # rm2, up0 @ up2))
       \<and> (\<forall>x \<in> set (snd (fst (processRetryItems sf ex items config st))).
             \<exists>y \<in> set items. x = y\<lparr>RetryCount := RetryCount y + 1\<rparr> \<and> Version y = calculatePipelineHash sf)
       \<and> (\<forall>x \<in> set (fst (fst (processRetryItems sf ex items config st))).
             Version x \<noteq> calculatePipelineHash sf \<longrightarrow> x \<in> set items)"
proof -
  let ?st1 = "logMsg TRACE
              ''Stored data item's Function Pipeline Version doesn't match current Function Pipeline Version. Removing item from DB''
              [S CorrelationHeader, S (CorrelationID item)] st0"
  have pre': "processRetryItemsLoop sf ex config pre ([], []) st = ((rm0, up0), st0)"
    using pre by (simp add: processRetryItems_def)
  have one: "processRetryItemsLoop sf ex config [item] (rm0, up0) st0 = ((rm0 @ [item], up0), ?st1)"
    using stale by simp
  have a: "processRetryItems sf ex (pre @ [item]) config st = ((rm0 @ [item], up0), ?st1)"
    unfolding processRetryItems_def loop_append pre' using one by simp
  obtain rm2 up2 st2 where rest: "processRetryItemsLoop sf ex config post ([], []) ?st1 = ((rm2, up2), st2)"
    by (metis prod.exhaust)
  have "processRetryItemsLoop sf ex config (pre @ item # post) ([], []) st
          = processRetryItemsLoop sf ex config post (rm0 @ [item], up0) ?st1"
    using loop_append [of sf ex config "pre @ [item]" post "([], [])" st] a
    by (simp add: processRetryItems_def)
  also have "\<dots> = (((rm0 @ [item]) @ rm2, up0 @ up2), st2)"
    using loop_acc [of sf ex config post "rm0 @ [item]" up0 ?st1] rest by simp
  finally have b: "fst (processRetryItems sf ex (pre @ item # post) config st) = (rm0 @ item # rm2, up0 @ up2)"
    by (simp add: processRetryItems_def)
  obtain r u st' where all: "processRetryItemsLoop sf ex config items ([], []) st = ((r, u), st')"
    by (metis prod.exhaust)
  have c: "(\<forall>x \<in> set (snd (fst (processRetryItems sf ex items config st))).
             \<exists>y \<in> set items. x = y\<lparr>RetryCount := RetryCount y + 1\<rparr> \<and> Version y = calculatePipelineHash sf)"
    using loop_members [OF all] all by (simp add: processRetryItems_def) blast
  have d: "(\<forall>x \<in> set (fst (fst (processRetryItems sf ex items config st))).
             Version x \<noteq> calculatePipelineHash sf \<longrightarrow> x \<in> set items)"
    using loop_members [OF all] all by (simp add: processRetryItems_def)
  from a b c d loop_length [OF rest] show ?thesis by blast
qed

text \<open>
  On the example: an item with the current hash whose retry fails, then a stale item with
  count 2. The stale item is removed as it is, and the world is the one the first item left.
\<close>

theorem processRetryItems_stale_hash_witness:
  "processRetryItems exportSf failingRetry [exampleItem ''i'' exampleHash 0] (exampleConfig True 3) initialSystem
     = (([], [exampleItem ''i'' exampleHash 1]),
        snd (processRetryItems exportSf failingRetry [exampleItem ''i'' exampleHash 0] (exampleConfig True 3) initialSystem))
   \<and> Version (exampleItem ''ii'' ''old'' 2) \<noteq> calculatePipelineHash exportSf
   \<and> processRetryItems exportSf failingRetry ([exampleItem ''i'' exampleHash 0] @ [exampleItem ''ii'' ''old'' 2])
         (exampleConfig True 3) initialSystem
       = (([exampleItem ''ii'' ''old'' 2], [exampleItem ''i'' exampleHash 1]),
          staleLogged (exampleItem ''ii'' ''old'' 2)
            (snd (processRetryItems exportSf failingRetry [exampleItem ''i'' exampleHash 0] (exampleConfig True 3) initialSystem)))
   \<and> world (snd (processRetryItems exportSf failingRetry ([exampleItem ''i'' exampleHash 0] @ [exampleItem ''ii'' ''old'' 2])
         (exampleConfig True 3) initialSystem))
       = world (snd (processRetryItems exportSf failingRetry [exampleItem ''i'' exampleHash 0] (exampleConfig True 3) initialSystem))"
proof -
  have h1: "processRetryItems exportSf failingRetry [exampleItem ''i'' exampleHash 0] (exampleConfig True 3) initialSystem
     = (([], [exampleItem ''i'' exampleHash 1]),
        snd (processRetryItems exportSf failingRetry [exampleItem ''i'' exampleHash 0] (exampleConfig True 3) initialSystem))"
    by (simp add: processRetryItems_def example_defs)
  have h2: "Version (exampleItem ''ii'' ''old'' 2) \<noteq> calculatePipelineHash exportSf"
    by (simp add: example_defs)
  have c: "processRetryItems exportSf failingRetry ([exampleItem ''i'' exampleHash 0] @ [exampleItem ''ii'' ''old'' 2])
         (exampleConfig True 3) initialSystem
       = (([exampleItem ''ii'' ''old'' 2], [exampleItem ''i'' exampleHash 1]),
          staleLogged (exampleItem ''ii'' ''old'' 2)
            (snd (processRetryItems exportSf failingRetry [exampleItem ''i'' exampleHash 0] (exampleConfig True 3) initialSystem)))"
    using processRetryItems_stale_hash [OF h1 h2, of "[]" "[]"]
    by (simp add: staleLogged_def)
  have d: "world (snd (processRetryItems exportSf failingRetry ([exampleItem ''i'' exampleHash 0] @ [exampleItem ''ii'' ''old'' 2])
         (exampleConfig True 3) initialSystem))
       = world (snd (processRetryItems exportSf failingRetry [exampleItem ''i'' exampleHash 0] (exampleConfig True 3) initialSystem))"
    unfolding c by (simp add: staleLogged_def logMsg_def)
  from h1 h2 c d show ?thesis by blast
qed

text \<open>
  Claim C9. \<open>processRetryItems\<close> partitions its input: the lengths of the two returned lists
  add up to the number of input items; up to the retry counter, the entries of the two lists
  together are exactly the input items, each as often as it occurs in the input, so that no
  item is dropped and none is placed twice; and when the items have distinct identifiers, as
  the items retrieved from a store have, the two lists are disjoint, by identifier and as
  lists of objects.
\<close>

theorem processRetryItems_partition:
  assumes "processRetryItems sf ex items config st = ((itemsToRemove, itemsToUpdate), st')"
  shows "length itemsToRemove + length itemsToUpdate = length items
       \<and> mset (map (\<lambda>i. i\<lparr>RetryCount := 0\<rparr>) itemsToRemove) + mset (map (\<lambda>i. i\<lparr>RetryCount := 0\<rparr>) itemsToUpdate)
           = mset (map (\<lambda>i. i\<lparr>RetryCount := 0\<rparr>) items)
       \<and> (distinct (map ID items) \<longrightarrow>
            set (map ID itemsToRemove) \<inter> set (map ID itemsToUpdate) = {}
          \<and> set itemsToRemove \<inter> set itemsToUpdate = {})"
proof -
  have run: "processRetryItemsLoop sf ex config items ([], []) st = ((itemsToRemove, itemsToUpdate), st')"
    using assms by (simp add: processRetryItems_def)
  have ids: "mset (map ID (itemsToRemove @ itemsToUpdate)) = mset (map ID items)"
    using loop_mset_ID [OF run] by simp
  have disj: "set (map ID itemsToRemove) \<inter> set (map ID itemsToUpdate) = {}" if d: "distinct (map ID items)"
  proof -
    have "distinct (map ID (itemsToRemove @ itemsToUpdate))"
      using ids d by (metis mset_eq_imp_distinct_iff)
    then show ?thesis by simp
  qed
  have disj2: "set itemsToRemove \<inter> set itemsToUpdate = {}" if d: "distinct (map ID items)"
    using disj [OF d] by auto
  show ?thesis using loop_length [OF run] loop_mset [OF run] disj disj2 by blast
qed

text \<open>
  On the example: a stale item, an item that fails for the first time and an item that fails
  for the third time, with \<open>MaxRetryCount = 3\<close>.
\<close>

theorem processRetryItems_partition_witness:
  "processRetryItems exportSf failingRetry
       [exampleItem ''i'' ''old'' 0, exampleItem ''ii'' exampleHash 0, exampleItem ''iii'' exampleHash 2]
       (exampleConfig True 3) initialSystem
     = (([exampleItem ''i'' ''old'' 0, exampleItem ''iii'' exampleHash 3], [exampleItem ''ii'' exampleHash 1]),
        snd (processRetryItems exportSf failingRetry
               [exampleItem ''i'' ''old'' 0, exampleItem ''ii'' exampleHash 0, exampleItem ''iii'' exampleHash 2]
               (exampleConfig True 3) initialSystem))
   \<and> distinct (map ID [exampleItem ''i'' ''old'' 0, exampleItem ''ii'' exampleHash 0, exampleItem ''iii'' exampleHash 2])
   \<and> length [exampleItem ''i'' ''old'' 0, exampleItem ''iii'' exampleHash 3] + length [exampleItem ''ii'' exampleHash 1]
       = length [exampleItem ''i'' ''old'' 0, exampleItem ''ii'' exampleHash 0, exampleItem ''iii'' exampleHash 2]
   \<and> set [exampleItem ''i'' ''old'' 0, exampleItem ''iii'' exampleHash 3] \<inter> set [exampleItem ''ii'' exampleHash 1] = {}"
proof -
  have h1: "processRetryItems exportSf failingRetry
       [exampleItem ''i'' ''old'' 0, exampleItem ''ii'' exampleHash 0, exampleItem ''iii'' exampleHash 2]
       (exampleConfig True 3) initialSystem
     = (([exampleItem ''i'' ''old'' 0, exampleItem ''iii'' exampleHash 3], [exampleItem ''ii'' exampleHash 1]),
        snd (processRetryItems exportSf failingRetry
               [exampleItem ''i'' ''old'' 0, exampleItem ''ii'' exampleHash 0, exampleItem ''iii'' exampleHash 2]
               (exampleConfig True 3) initialSystem))"
    by (simp add: processRetryItems_def example_defs)
  have h2: "distinct (map ID [exampleItem ''i'' ''old'' 0, exampleItem ''ii'' exampleHash 0, exampleItem ''iii'' exampleHash 2])"
    by (simp add: exampleItem_def)
  from processRetryItems_partition [OF h1] h1 h2 show ?thesis by blast
qed

subsection \<open>The retry loop\<close>

text \<open>
  Claim C8. When the retry loop is started with a \<open>MaxRetryCount\<close> below 0, the
  configuration that the loop runs with, and that the caller sees afterwards, has
  \<open>MaxRetryCount = 1\<close>; the message that says so is logged (at level \<open>INFO\<close>) before the
  start message and before the loop selects its first event, and every tick of the loop calls
  \<open>retryStoredData\<close> with the coerced configuration. With it retries are bounded at 1: in a
  tick over items whose counters are non-negative (and not the largest \<open>int\<close>, where the
  increment would wrap around) no item is kept for another retry, all are removed.
\<close>

theorem startStoreAndForwardRetryLoop_negative_MaxRetryCount:
  assumes neg: "sint (maxRetryCount config) < 0"
  shows "startStoreAndForwardRetryLoop sf ex serviceKey config events st =
           (setMaxRetryCount 1 config,
            retryLoop sf ex serviceKey (setMaxRetryCount 1 config)
              (if sint (RetryInterval (StoreAndForward (Writable config))) < sint DefaultMinRetryInterval
               then DefaultMinRetryInterval else RetryInterval (StoreAndForward (Writable config)))
              events
              (logMsg INFO ''Starting StoreAndForward Retry Loop with %d RetryInterval and %d max retries''
                 [N (if sint (RetryInterval (StoreAndForward (Writable config))) < sint DefaultMinRetryInterval
                     then DefaultMinRetryInterval else RetryInterval (StoreAndForward (Writable config))),
                  N 1]
                 (logMsg INFO ''StoreAndForward MaxRetryCount can not be less than 0, defaulting to 1'' [] st)))
       \<and> maxRetryCount (setMaxRetryCount 1 config) = 1
       \<and> (\<forall>items st'.
            (\<forall>i \<in> set items. 0 \<le> sint (RetryCount i) \<and> RetryCount i \<noteq> 0x7FFFFFFFFFFFFFFF) \<longrightarrow>
            snd (fst (processRetryItems sf ex items (setMaxRetryCount 1 config) st')) = []
          \<and> length (fst (fst (processRetryItems sf ex items (setMaxRetryCount 1 config) st'))) = length items)"
proof -
  have one: "maxRetryCount (setMaxRetryCount 1 config) = 1"
    by (simp add: maxRetryCount_def setMaxRetryCount_def)
  have start: "startStoreAndForwardRetryLoop sf ex serviceKey config events st =
           (setMaxRetryCount 1 config,
            retryLoop sf ex serviceKey (setMaxRetryCount 1 config)
              (if sint (RetryInterval (StoreAndForward (Writable config))) < sint DefaultMinRetryInterval
               then DefaultMinRetryInterval else RetryInterval (StoreAndForward (Writable config)))
              events
              (logMsg INFO ''Starting StoreAndForward Retry Loop with %d RetryInterval and %d max retries''
                 [N (if sint (RetryInterval (StoreAndForward (Writable config))) < sint DefaultMinRetryInterval
                     then DefaultMinRetryInterval else RetryInterval (StoreAndForward (Writable config))),
                  N 1]
                 (logMsg INFO ''StoreAndForward MaxRetryCount can not be less than 0, defaulting to 1'' [] st)))"
    using neg by (simp add: startStoreAndForwardRetryLoop_def Let_def one)
  have bound: "snd (fst (processRetryItems sf ex items (setMaxRetryCount 1 config) st')) = []
          \<and> length (fst (fst (processRetryItems sf ex items (setMaxRetryCount 1 config) st'))) = length items"
    if ok: "\<forall>i \<in> set items. 0 \<le> sint (RetryCount i) \<and> RetryCount i \<noteq> 0x7FFFFFFFFFFFFFFF"
    for items and st' :: "'a System"
  proof -
    obtain r u st2 where run: "processRetryItemsLoop sf ex (setMaxRetryCount 1 config) items ([], []) st' = ((r, u), st2)"
      by (metis prod.exhaust)
    have "u = []"
    proof (rule ccontr)
      assume "u \<noteq> []"
      then obtain x where x: "x \<in> set u" by (cases u) auto
      with loop_members [OF run] obtain y where y: "y \<in> set items" "x = y\<lparr>RetryCount := RetryCount y + 1\<rparr>"
        and lt: "sint (RetryCount x) < 1"
        using one by fastforce
      from ok y(1) have "sint (RetryCount y + 1) = sint (RetryCount y) + 1" "0 \<le> sint (RetryCount y)"
        by (simp_all add: sint_plus_one)
      with lt y(2) show False by simp
    qed
    with loop_length [OF run] run show ?thesis by (simp add: processRetryItems_def)
  qed
  from start one bound show ?thesis by blast
qed

text \<open>
  On the example: \<open>MaxRetryCount = -5\<close>, one tick and then the end of the application.
\<close>

theorem startStoreAndForwardRetryLoop_negative_MaxRetryCount_witness:
  "sint (maxRetryCount (exampleConfig True (- 5))) < 0
   \<and> fst (startStoreAndForwardRetryLoop exportSf failingRetry ''AppService-UnitTest'' (exampleConfig True (- 5))
            [TimerFired, AppCtxDone] initialSystem) = exampleConfig True 1
   \<and> fst (processRetryItems exportSf failingRetry [exampleItem ''i'' exampleHash 0]
            (setMaxRetryCount 1 (exampleConfig True (- 5))) initialSystem)
       = ([exampleItem ''i'' exampleHash 1], [])"
proof -
  have h: "sint (maxRetryCount (exampleConfig True (- 5))) < 0"
    by (simp add: example_defs)
  note t = startStoreAndForwardRetryLoop_negative_MaxRetryCount
             [OF h, of exportSf failingRetry "''AppService-UnitTest''" "[TimerFired, AppCtxDone]" initialSystem]
  have a: "fst (startStoreAndForwardRetryLoop exportSf failingRetry ''AppService-UnitTest'' (exampleConfig True (- 5))
            [TimerFired, AppCtxDone] initialSystem) = exampleConfig True 1"
    using t by (simp add: example_defs)
  have ok: "\<forall>i \<in> set [exampleItem ''i'' exampleHash 0]. 0 \<le> sint (RetryCount i) \<and> RetryCount i \<noteq> 0x7FFFFFFFFFFFFFFF"
    by (simp add: exampleItem_def)
  from t ok have u: "snd (fst (processRetryItems exportSf failingRetry [exampleItem ''i'' exampleHash 0]
            (setMaxRetryCount 1 (exampleConfig True (- 5))) initialSystem)) = []"
    by blast
  have b: "fst (processRetryItems exportSf failingRetry [exampleItem ''i'' exampleHash 0]
            (setMaxRetryCount 1 (exampleConfig True (- 5))) initialSystem)
       = ([exampleItem ''i'' exampleHash 1], [])"
    by (simp add: processRetryItems_def example_defs)
  from h a b show ?thesis by blast
qed

text \<open>
  The same run on a store that holds one item with the current hash: its retry fails once and
  the item is gone from the store after the tick.
\<close>

lemma retry_loop_tick_example:
  "(case snd (startStoreAndForwardRetryLoop exportSf failingRetry ''AppService-UnitTest'' (exampleConfig True (- 5))
            [TimerFired, AppCtxDone]
            (initialSystem\<lparr>world := emptyWorld\<lparr>db := [exampleItem ''i'' exampleHash 0]\<rparr>\<rparr>)) of
      Exited st \<Rightarrow> db (world st) = []
    | Waiting st \<Rightarrow> False)"
  by (simp add: startStoreAndForwardRetryLoop_def retryStoredData_def processRetryItems_def
        removeOne_def updateOne_def DefaultMinRetryInterval_def example_defs)

subsection \<open>The pipeline\<close>

lemma runStages_append:
  "runStages sf (pre @ post) i v ctx invk st =
     (case runStages sf pre i v ctx invk st of
        Completed v' c' invk' st' \<Rightarrow> runStages sf post (i + length pre) v' c' invk' st'
      | Stopped e c' invk' st' \<Rightarrow> Stopped e c' invk' st')"
proof (induction pre arbitrary: i v ctx invk st)
  case Nil
  show ?case by simp
next
  case (Cons t pre)
  have e: "i + length (t # pre) = Suc i + length pre" by simp
  show ?case
    unfolding e by (simp add: Cons.IH split: prod.splits option.splits PipelineValue.splits)
qed

lemma runStages_invoked:
  "runStages sf ts i v ctx invk st = Completed v' c' invk' st' \<Longrightarrow> invk' = invk @ [i..<i + length ts]"
proof (induction ts arbitrary: i v ctx invk st)
  case Nil
  then show ?case by simp
next
  case (Cons t ts)
  from Cons.prems obtain out c1 w1 where
    step: "fn t ctx v (world st) = (Some (True, out), c1, w1)"
    and rest: "runStages sf ts (Suc i) out c1 (invk @ [i]) (st\<lparr>world := w1\<rparr>) = Completed v' c' invk' st'"
    by (auto split: prod.splits option.splits PipelineValue.splits if_splits)
  have j: "i + length (t # ts) = Suc i + length ts" by simp
  have "i < Suc i + length ts" by simp
  then have "[i..<Suc i + length ts] = i # [Suc i..<Suc i + length ts]"
    by (rule upt_conv_Cons)
  with Cons.IH [OF rest] show ?case unfolding j by simp
qed

text \<open>
  Claim C3. First, for \<open>storeForLaterRetry\<close> itself: when \<open>Enabled\<close> is false in the
  configuration of the context, the world, and the store in it, is unchanged, whatever the
  store client is, so that no \<open>Store\<close> call was made; when \<open>Enabled\<close> is true the world is
  the one that \<open>Store\<close> returns for the new stored object. Second, for a pipeline whose
  stages before \<open>t\<close> all continue and whose stage \<open>t\<close> fails with an error value:
  \<open>executePipeline\<close> returns that error in every case, and the in-flight item has been
  handed to \<open>Store\<close> if and only if the retry-data slot of the context is filled and
  \<open>Enabled\<close> is true; otherwise the world is as the failed stage left it.
\<close>

theorem storeForLaterRetry_iff_enabled:
  assumes reached: "runStages sf pre 0 inputValue ctx [] st = Completed v1 ctx1 inv1 st1"
    and failed: "fn t ctx1 v1 (world st1) = (Some (False, VError e), ctx2, w2)"
  shows "(\<forall>payload edgexcontext pipelinePosition st0.
            world (storeForLaterRetry sf payload edgexcontext pipelinePosition st0) =
              (if Enabled (StoreAndForward (Writable (Configuration edgexcontext))) then
                 snd (Store (storeClient sf)
                        ((NewStoredObject (ServiceKey (runtime sf)) payload pipelinePosition (pipelineHash sf))
                           \<lparr>CorrelationID := ctxCorrelationID edgexcontext,
                            EventID := ctxEventID edgexcontext,
                            EventChecksum := ctxEventChecksum edgexcontext\<rparr>)
                        (world st0))
               else world st0))
       \<and> (\<exists>st'. executePipeline sf inputValue correlationID ctx (pre @ t # post) 0 False st =
                   (Some \<lparr>kind = StageError, position = length pre, httpStatus = 422, wrapped = e\<rparr>,
                    ctx2, [0..<Suc (length pre)], st')
              \<and> world st' =
                  (case RetryData ctx2 of
                     None \<Rightarrow> w2
                   | Some retryData \<Rightarrow>
                       if Enabled (StoreAndForward (Writable (Configuration ctx2))) then
                         snd (Store (storeClient sf)
                                ((NewStoredObject (ServiceKey (runtime sf)) retryData (of_nat (length pre)) (pipelineHash sf))
                                   \<lparr>CorrelationID := ctxCorrelationID ctx2,
                                    EventID := ctxEventID ctx2,
                                    EventChecksum := ctxEventChecksum ctx2\<rparr>)
                                w2)
                       else w2))"
proof -
  have A: "world (storeForLaterRetry sf payload edgexcontext pipelinePosition st0) =
              (if Enabled (StoreAndForward (Writable (Configuration edgexcontext))) then
                 snd (Store (storeClient sf)
                        ((NewStoredObject (ServiceKey (runtime sf)) payload pipelinePosition (pipelineHash sf))
                           \<lparr>CorrelationID := ctxCorrelationID edgexcontext,
                            EventID := ctxEventID edgexcontext,
                            EventChecksum := ctxEventChecksum edgexcontext\<rparr>)
                        (world st0))
               else world st0)" for payload edgexcontext pipelinePosition and st0 :: "'a System"
    by (simp add: storeForLaterRetry_def Let_def logMsg_def split: prod.splits sum.splits)
  have inv1: "inv1 = [0..<length pre]"
    using runStages_invoked [OF reached] by simp
  let ?st' = "(case RetryData ctx2 of
                      None \<Rightarrow> st1\<lparr>world := w2\<rparr>
                    | Some retryData \<Rightarrow> storeForLaterRetry sf retryData ctx2 (of_nat (length pre)) (st1\<lparr>world := w2\<rparr>))"
  have "runStages sf (t # post) (length pre) v1 ctx1 inv1 st1 =
          Stopped (Some \<lparr>kind = StageError, position = length pre, httpStatus = 422, wrapped = e\<rparr>)
            ctx2 (inv1 @ [length pre]) ?st'"
    using failed by simp
  then have "runStages sf (pre @ t # post) 0 inputValue ctx [] st =
          Stopped (Some \<lparr>kind = StageError, position = length pre, httpStatus = 422, wrapped = e\<rparr>)
            ctx2 (inv1 @ [length pre]) ?st'"
    unfolding runStages_append [of sf pre "t # post" 0 inputValue ctx "[]" st] reached by simp
  then have B1: "executePipeline sf inputValue correlationID ctx (pre @ t # post) 0 False st =
                   (Some \<lparr>kind = StageError, position = length pre, httpStatus = 422, wrapped = e\<rparr>,
                    ctx2, [0..<Suc (length pre)], ?st')"
    unfolding executePipeline_def inv1 by simp
  have B2: "world ?st' = (case RetryData ctx2 of
                     None \<Rightarrow> w2
                   | Some retryData \<Rightarrow>
                       if Enabled (StoreAndForward (Writable (Configuration ctx2))) then
                         snd (Store (storeClient sf)
                                ((NewStoredObject (ServiceKey (runtime sf)) retryData (of_nat (length pre)) (pipelineHash sf))
                                   \<lparr>CorrelationID := ctxCorrelationID ctx2,
                                    EventID := ctxEventID ctx2,
                                    EventChecksum := ctxEventChecksum ctx2\<rparr>)
                                w2)
                       else w2)"
    by (cases "RetryData ctx2") (simp_all add: A)
  from A B1 B2 show ?thesis by blast
qed

text \<open>
  On the example: a pass-through stage and a failing export stage that fills the retry-data
  slot. With store and forward enabled the error is returned and the store holds the item at
  position 1 with retry count 0; with it disabled the store stays empty.
\<close>

theorem storeForLaterRetry_iff_enabled_witness:
  "runStages exportSf [transformPassthru] 0 (VBytes [77, 121]) (exampleContext (exampleConfig True 3)) [] initialSystem
       = Completed (VBytes [77, 121]) (exampleContext (exampleConfig True 3)) [0]
           (initialSystem\<lparr>world := emptyWorld\<lparr>calls := [''transformPassthru'']\<rparr>\<rparr>)
   \<and> fn transformFailingExport (exampleContext (exampleConfig True 3)) (VBytes [77, 121])
         (emptyWorld\<lparr>calls := [''transformPassthru'']\<rparr>)
       = (Some (False, VError ''connection refused''),
          (exampleContext (exampleConfig True 3))\<lparr>RetryData := Some [77, 121]\<rparr>,
          emptyWorld\<lparr>calls := [''transformPassthru'', ''HTTPPost'']\<rparr>)
   \<and> fst (executePipeline exportSf (VBytes [77, 121]) [] (exampleContext (exampleConfig True 3))
            ([transformPassthru] @ transformFailingExport # []) 0 False initialSystem)
       = Some \<lparr>kind = StageError, position = 1, httpStatus = 422, wrapped = ''connection refused''\<rparr>
   \<and> db (world (snd (snd (snd (executePipeline exportSf (VBytes [77, 121]) [] (exampleContext (exampleConfig True 3))
            ([transformPassthru] @ transformFailingExport # []) 0 False initialSystem)))))
       = [exampleItem ''i'' exampleHash 0]
   \<and> db (world (storeForLaterRetry exportSf [77, 121] (exampleContext (exampleConfig False 3)) 1 initialSystem)) = []"
proof -
  have h1: "runStages exportSf [transformPassthru] 0 (VBytes [77, 121]) (exampleContext (exampleConfig True 3)) [] initialSystem
       = Completed (VBytes [77, 121]) (exampleContext (exampleConfig True 3)) [0]
           (initialSystem\<lparr>world := emptyWorld\<lparr>calls := [''transformPassthru'']\<rparr>\<rparr>)"
    by (simp add: example_defs)
  have h2: "fn transformFailingExport (exampleContext (exampleConfig True 3)) (VBytes [77, 121])
         (world (initialSystem\<lparr>world := emptyWorld\<lparr>calls := [''transformPassthru'']\<rparr>\<rparr>))
       = (Some (False, VError ''connection refused''),
          (exampleContext (exampleConfig True 3))\<lparr>RetryData := Some [77, 121]\<rparr>,
          emptyWorld\<lparr>calls := [''transformPassthru'', ''HTTPPost'']\<rparr>)"
    by (simp add: example_defs)
  note t = storeForLaterRetry_iff_enabled [OF h1 h2, of "[]" "[]"]
  from t obtain st' where
    e: "executePipeline exportSf (VBytes [77, 121]) [] (exampleContext (exampleConfig True 3))
            ([transformPassthru] @ transformFailingExport # []) 0 False initialSystem
          = (Some \<lparr>kind = StageError, position = length [transformPassthru], httpStatus = 422,
                    wrapped = ''connection refused''\<rparr>,
             (exampleContext (exampleConfig True 3))\<lparr>RetryData := Some [77, 121]\<rparr>,
             [0..<Suc (length [transformPassthru])], st')"
    and w: "world st' =
              (case RetryData ((exampleContext (exampleConfig True 3))\<lparr>RetryData := Some [77, 121]\<rparr>) of
                 None \<Rightarrow> emptyWorld\<lparr>calls := [''transformPassthru'', ''HTTPPost'']\<rparr>
               | Some retryData \<Rightarrow>
                   if Enabled (StoreAndForward (Writable (Configuration
                        ((exampleContext (exampleConfig True 3))\<lparr>RetryData := Some [77, 121]\<rparr>)))) then
                     snd (Store (storeClient exportSf)
                            ((NewStoredObject (ServiceKey (runtime exportSf)) retryData
                                (of_nat (length [transformPassthru])) (pipelineHash exportSf))
                               \<lparr>CorrelationID := ctxCorrelationID ((exampleContext (exampleConfig True 3))\<lparr>RetryData := Some [77, 121]\<rparr>),
                                EventID := ctxEventID ((exampleContext (exampleConfig True 3))\<lparr>RetryData := Some [77, 121]\<rparr>),
                                EventChecksum := ctxEventChecksum ((exampleContext (exampleConfig True 3))\<lparr>RetryData := Some [77, 121]\<rparr>)\<rparr>)
                            (emptyWorld\<lparr>calls := [''transformPassthru'', ''HTTPPost'']\<rparr>))
                   else emptyWorld\<lparr>calls := [''transformPassthru'', ''HTTPPost'']\<rparr>)"
    by blast
  have c1: "fst (executePipeline exportSf (VBytes [77, 121]) [] (exampleContext (exampleConfig True 3))
            ([transformPassthru] @ transformFailingExport # []) 0 False initialSystem)
       = Some \<lparr>kind = StageError, position = 1, httpStatus = 422, wrapped = ''connection refused''\<rparr>"
    unfolding e by simp
  have c2: "db (world (snd (snd (snd (executePipeline exportSf (VBytes [77, 121]) [] (exampleContext (exampleConfig True 3))
            ([transformPassthru] @ transformFailingExport # []) 0 False initialSystem)))))
       = [exampleItem ''i'' exampleHash 0]"
    unfolding e using w by (simp add: example_defs NewStoredObject_def)
  have c3: "db (world (storeForLaterRetry exportSf [77, 121] (exampleContext (exampleConfig False 3)) 1 initialSystem)) = []"
    using t by (simp add: example_defs)
  from h1 h2 c1 c2 c3 show ?thesis by simp
qed

text \<open>
  Claim C4. For every pipeline \<open>pre @ t # post\<close>: when the message decodes, the stages
  \<open>pre\<close> all continue, and the stage \<open>t\<close> at position \<open>length pre\<close> returns
  \<open>continue? = false\<close> with an output that is not an error value, then \<open>ProcessMessage\<close>
  returns no error, the stages invoked are exactly those at positions \<open>0, \<dots>, length pre\<close>,
  and the context and the world are as stage \<open>t\<close> left them: no stage of \<open>post\<close> is
  invoked.
\<close>

theorem runtimeProcessMessage_clean_stop:
  assumes decode: "decode envelope = Inr inputValue"
    and pipeline: "transforms (runtime sf) = pre @ t # post"
    and reached: "runStages sf pre 0 inputValue ctx [] st = Completed v1 ctx1 inv1 st1"
    and stop: "fn t ctx1 v1 (world st1) = (Some (False, result), ctx2, w2)"
    and noError: "\<forall>e. result \<noteq> VError e"
  shows "runtimeProcessMessage sf decode ctx envelope st =
           (None, ctx2, [0..<Suc (length pre)], st1\<lparr>world := w2\<rparr>)"
proof -
  have inv1: "inv1 = [0..<length pre]"
    using runStages_invoked [OF reached] by simp
  have "runStages sf (t # post) (length pre) v1 ctx1 inv1 st1 = Stopped None ctx2 (inv1 @ [length pre]) (st1\<lparr>world := w2\<rparr>)"
    using stop noError by (cases result) simp_all
  then have "runStages sf (pre @ t # post) 0 inputValue ctx [] st
               = Stopped None ctx2 (inv1 @ [length pre]) (st1\<lparr>world := w2\<rparr>)"
    unfolding runStages_append [of sf pre "t # post" 0 inputValue ctx "[]" st] reached by simp
  then show ?thesis
    unfolding runtimeProcessMessage_def executePipeline_def decode pipeline inv1 by simp
qed

text \<open>
  On the example, in the manner of \<open>TestProcessMessageThreeCustomTransformsOneFail\<close>: the
  second of three transforms returns \<open>(false, "Transform1Result")\<close>.
\<close>

theorem runtimeProcessMessage_clean_stop_witness:
  "decodeBytes exampleMessage = Inr (VBytes [123, 125])
   \<and> transforms (runtime (exampleSf [transformPassthru, transformStop, transformHello]))
       = [transformPassthru] @ transformStop # [transformHello]
   \<and> runStages (exampleSf [transformPassthru, transformStop, transformHello]) [transformPassthru] 0
         (VBytes [123, 125]) (exampleContext (exampleConfig False 0)) [] initialSystem
       = Completed (VBytes [123, 125]) (exampleContext (exampleConfig False 0)) [0]
           (initialSystem\<lparr>world := emptyWorld\<lparr>calls := [''transformPassthru'']\<rparr>\<rparr>)
   \<and> fn transformStop (exampleContext (exampleConfig False 0)) (VBytes [123, 125])
         (emptyWorld\<lparr>calls := [''transformPassthru'']\<rparr>)
       = (Some (False, VString ''Transform1Result''), exampleContext (exampleConfig False 0),
          emptyWorld\<lparr>calls := [''transformPassthru'', ''transformStop'']\<rparr>)
   \<and> runtimeProcessMessage (exampleSf [transformPassthru, transformStop, transformHello])
         decodeBytes (exampleContext (exampleConfig False 0))
         exampleMessage initialSystem
       = (None, exampleContext (exampleConfig False 0), [0, 1],
          initialSystem\<lparr>world := emptyWorld\<lparr>calls := [''transformPassthru'', ''transformStop'']\<rparr>\<rparr>)"
proof -
  have h1: "decodeBytes exampleMessage = Inr (VBytes [123, 125])"
    by (simp add: exampleMessage_def decodeBytes_def)
  have h2: "transforms (runtime (exampleSf [transformPassthru, transformStop, transformHello]))
       = [transformPassthru] @ transformStop # [transformHello]"
    by (simp add: exampleSf_def)
  have h3: "runStages (exampleSf [transformPassthru, transformStop, transformHello]) [transformPassthru] 0
         (VBytes [123, 125]) (exampleContext (exampleConfig False 0)) [] initialSystem
       = Completed (VBytes [123, 125]) (exampleContext (exampleConfig False 0)) [0]
           (initialSystem\<lparr>world := emptyWorld\<lparr>calls := [''transformPassthru'']\<rparr>\<rparr>)"
    by (simp add: example_defs)
  have h4: "fn transformStop (exampleContext (exampleConfig False 0)) (VBytes [123, 125])
         (world (initialSystem\<lparr>world := emptyWorld\<lparr>calls := [''transformPassthru'']\<rparr>\<rparr>))
       = (Some (False, VString ''Transform1Result''), exampleContext (exampleConfig False 0),
          emptyWorld\<lparr>calls := [''transformPassthru'', ''transformStop'']\<rparr>)"
    by (simp add: example_defs)
  have h5: "\<forall>e. VString ''Transform1Result'' \<noteq> VError e" by simp
  have c: "runtimeProcessMessage (exampleSf [transformPassthru, transformStop, transformHello])
         decodeBytes (exampleContext (exampleConfig False 0))
         exampleMessage initialSystem
       = (None, exampleContext (exampleConfig False 0), [0, 1],
          initialSystem\<lparr>world := emptyWorld\<lparr>calls := [''transformPassthru'', ''transformStop'']\<rparr>\<rparr>)"
    using runtimeProcessMessage_clean_stop [where decode = decodeBytes and envelope = exampleMessage, OF h1 h2 h3 h4 h5] by (simp add: upt_rec)
  from h1 h2 h3 h4 c show ?thesis by simp
qed

subsection \<open>The message bus trigger\<close>

text \<open>
  When the pipeline completes with a response payload, and the response content type is set
  or the payload is not empty, the trigger publishes one envelope: it carries the correlation
  identifier of the context and the payload, and its content type is the response content type
  of the context when that is set, otherwise \<open>application/json\<close> when the first byte of the
  payload is \<open>{\<close>, otherwise \<open>application/cbor\<close>.
\<close>

lemma processMessage_response:
  assumes run: "trgProcessMessage trigger (newContext trigger message) message
                  (logReceived triggerTopic message st) = (None, ctx, st3)"
    and out: "OutputData ctx = Some outputData"
    and safe: "ResponseContentType ctx \<noteq> [] \<or> outputData \<noteq> []"
  shows "processMessage trigger triggerTopic message st =
           Returned (publishOutputEnvelope trigger message
             \<lparr>envCorrelationID = ctxCorrelationID ctx, envPayload = outputData,
              envContentType =
                (if ResponseContentType ctx \<noteq> [] then ResponseContentType ctx
                 else if hd outputData = 0x7B then ContentTypeJSON else ContentTypeCBOR)\<rparr> st3)"
  using assms by (auto simp: processMessage_def Let_def split: list.splits)

text \<open>
  A response that starts with the byte \<open>0xA1\<close> and has no response content type is published
  as \<open>application/cbor\<close>, with the correlation identifier of the message.
\<close>

lemma processMessage_cbor_example:
  "(case processMessage (exampleTrigger [161, 97] []) ''events'' exampleMessage initialSystem of
      Returned st \<Rightarrow> published (world st)
    | Panicked p \<Rightarrow> [])
     = [(''events'', \<lparr>envCorrelationID = ''123-234-345-456'', envPayload = [161, 97],
                      envContentType = ''application/cbor''\<rparr>)]"
  by (simp add: processMessage_def exampleTrigger_def respondWith_def newContext_def Let_def
        publishOutputEnvelope_def logReceived_def logMsg_def initialSystem_def emptyWorld_def
        exampleMessage_def ContentTypeCBOR_def ContentTypeJSON_def)

text \<open>
  Claim C5 does not hold for every message that completes with a non-nil response payload. On
  a message whose pipeline leaves a response payload that is not nil but has length 0, and no
  response content type, the trigger builds no envelope: the read of byte 0 panics.
\<close>

theorem processMessage_empty_response_evaluation:
  "processMessage (exampleTrigger [] []) ''events'' exampleMessage initialSystem
     = Panicked ''index out of range [0] with length 0''"
  by (simp add: processMessage_def exampleTrigger_def respondWith_def newContext_def Let_def)

text \<open>
  Claim C10. When the pipeline completes with a non-nil response payload and no response
  content type, so that the content type is inferred, \<open>processMessage\<close> reads byte 0 of the
  payload without a guard: on a payload of length 0 the index is out of range and the function
  panics, and on a non-empty payload it returns.
\<close>

theorem processMessage_empty_response_panics:
  assumes run: "trgProcessMessage trigger (newContext trigger message) message
                  (logReceived triggerTopic message st) = (None, ctx, st3)"
    and out: "OutputData ctx = Some outputData"
    and noType: "ResponseContentType ctx = []"
  shows "(outputData = [] \<longrightarrow>
            processMessage trigger triggerTopic message st = Panicked ''index out of range [0] with length 0'')
       \<and> (outputData \<noteq> [] \<longrightarrow> (\<exists>st'. processMessage trigger triggerTopic message st = Returned st'))"
  using assms by (auto simp: processMessage_def Let_def split: list.splits)

text \<open>
  The panic is reached on the example message, with a pipeline that leaves an empty payload.
\<close>

theorem processMessage_empty_response_panics_witness:
  "trgProcessMessage (exampleTrigger [] []) (newContext (exampleTrigger [] []) exampleMessage) exampleMessage
       (logReceived ''events'' exampleMessage initialSystem)
     = (None, (newContext (exampleTrigger [] []) exampleMessage)\<lparr>OutputData := Some [], ResponseContentType := []\<rparr>,
        logReceived ''events'' exampleMessage initialSystem)
   \<and> OutputData ((newContext (exampleTrigger [] []) exampleMessage)\<lparr>OutputData := Some [], ResponseContentType := []\<rparr>)
       = Some []
   \<and> ResponseContentType ((newContext (exampleTrigger [] []) exampleMessage)\<lparr>OutputData := Some [], ResponseContentType := []\<rparr>)
       = []
   \<and> processMessage (exampleTrigger [] []) ''events'' exampleMessage initialSystem
       = Panicked ''index out of range [0] with length 0''"
proof -
  have h1: "trgProcessMessage (exampleTrigger [] []) (newContext (exampleTrigger [] []) exampleMessage) exampleMessage
       (logReceived ''events'' exampleMessage initialSystem)
     = (None, (newContext (exampleTrigger [] []) exampleMessage)\<lparr>OutputData := Some [], ResponseContentType := []\<rparr>,
        logReceived ''events'' exampleMessage initialSystem)"
    by (simp add: exampleTrigger_def respondWith_def)
  have h2: "OutputData ((newContext (exampleTrigger [] []) exampleMessage)\<lparr>OutputData := Some [], ResponseContentType := []\<rparr>)
       = Some []"
    by simp
  have h3: "ResponseContentType ((newContext (exampleTrigger [] []) exampleMessage)\<lparr>OutputData := Some [], ResponseContentType := []\<rparr>)
       = []"
    by simp
  from processMessage_empty_response_panics [OF h1 h2 h3] h1 h2 h3 show ?thesis by simp
qed

subsection \<open>Legacy events\<close>

text \<open>
  Claim C6. For every envelope whose content type is JSON or CBOR and whose payload the codec
  of that content type unmarshals as a legacy event, decoding succeeds with an event of the
  current shape whose \<open>ProfileName\<close> is the literal \<open>Unknown\<close>, on the event and on every
  reading of it; the other fields of the event and of its readings are those of the legacy
  event.
\<close>

theorem unmarshalV1EventToV2Event_Unknown:
  assumes "(envContentType envelope = ContentTypeJSON \<and> jsonUnmarshalV1 codec (envPayload envelope) = Inr v1)
         \<or> (envContentType envelope = ContentTypeCBOR \<and> cborUnmarshalV1 codec (envPayload envelope) = Inr v1)"
  shows "\<exists>e. unmarshalV1EventToV2Event codec envelope = Inr e
           \<and> evProfileName e = ''Unknown''
           \<and> (\<forall>r \<in> set (evReadings e). rdProfileName r = ''Unknown'')
           \<and> evId e = v1ID v1 \<and> evDeviceName e = v1Device v1
           \<and> evCreated e = v1Created v1 \<and> evOrigin e = v1Origin v1 \<and> evTags e = v1Tags v1
           \<and> map rdId (evReadings e) = map v1rId (v1Readings v1)
           \<and> map rdDeviceName (evReadings e) = map v1rDevice (v1Readings v1)
           \<and> map rdResourceName (evReadings e) = map v1rName (v1Readings v1)
           \<and> map rdValueType (evReadings e) = map v1rValueType (v1Readings v1)
           \<and> map rdValue (evReadings e) = map v1rValue (v1Readings v1)"
  using assms
  by (auto simp: unmarshalV1EventToV2Event_def v1EventToV2_def v1ReadingToV2_def
        ContentTypeJSON_def ContentTypeCBOR_def)

text \<open>
  On the legacy event of the runtime's tests the result is the event that
  \<open>TestGolangRuntime_unmarshalV1EventToV2Event\<close> expects.
\<close>

theorem unmarshalV1EventToV2Event_Unknown_witness:
  "((envContentType exampleMessage = ContentTypeJSON
       \<and> jsonUnmarshalV1 exampleCodec (envPayload exampleMessage) = Inr testV1Event)
      \<or> (envContentType exampleMessage = ContentTypeCBOR
       \<and> cborUnmarshalV1 exampleCodec (envPayload exampleMessage) = Inr testV1Event))
   \<and> unmarshalV1EventToV2Event exampleCodec exampleMessage = Inr expectedEvent
   \<and> evProfileName expectedEvent = ''Unknown''
   \<and> map rdProfileName (evReadings expectedEvent) = [''Unknown'']"
proof -
  have h: "(envContentType exampleMessage = ContentTypeJSON
       \<and> jsonUnmarshalV1 exampleCodec (envPayload exampleMessage) = Inr testV1Event)
      \<or> (envContentType exampleMessage = ContentTypeCBOR
       \<and> cborUnmarshalV1 exampleCodec (envPayload exampleMessage) = Inr testV1Event)"
    by (simp add: exampleMessage_def exampleCodec_def)
  from unmarshalV1EventToV2Event_Unknown [OF h] obtain e where
    e: "unmarshalV1EventToV2Event exampleCodec exampleMessage = Inr e" by blast
  have c: "unmarshalV1EventToV2Event exampleCodec exampleMessage = Inr expectedEvent"
    by (simp add: unmarshalV1EventToV2Event_def exampleMessage_def exampleCodec_def v1EventToV2_def
          v1ReadingToV2_def testV1Event_def expectedEvent_def ApiVersion_def)
  have d: "evProfileName expectedEvent = ''Unknown'' \<and> map rdProfileName (evReadings expectedEvent) = [''Unknown'']"
    using unmarshalV1EventToV2Event_Unknown [OF h] c by (simp add: expectedEvent_def)
  from h c d show ?thesis by blast
qed

subsection \<open>Custom trigger factories\<close>

text \<open>
  Claim C7. For every name whose upper-cased form is one of the built-in trigger types
  \<open>HTTP\<close>, \<open>EDGEX-MESSAGEBUS\<close> and \<open>EXTERNAL-MQTT\<close>, \<open>RegisterCustomTriggerFactory\<close>
  returns an error and leaves the SDK, and the registry in it, as it was. For every other name
  it returns no error, and the registry maps the upper-cased name to the factory and every
  other key to what it was mapped to before.
\<close>

theorem RegisterCustomTriggerFactory_builtin_rejected:
  "(ToUpper name \<in> {TriggerTypeHTTP, TriggerTypeMessageBus, TriggerTypeMQTT} \<longrightarrow>
      (\<exists>err. RegisterCustomTriggerFactory ToUpper sdk name factory = (Some err, sdk)))
   \<and> (ToUpper name \<notin> {TriggerTypeHTTP, TriggerTypeMessageBus, TriggerTypeMQTT} \<longrightarrow>
      (\<exists>registry. RegisterCustomTriggerFactory ToUpper sdk name factory
                     = (None, sdk\<lparr>customTriggerFactories := Some registry\<rparr>)
         \<and> registry (ToUpper name) = Some (\<lambda>config. factory \<lparr>tcConfig = config\<rparr>)
         \<and> (\<forall>key. key \<noteq> ToUpper name \<longrightarrow>
               registry key = (case customTriggerFactories sdk of None \<Rightarrow> None | Some m \<Rightarrow> m key))))"
  by (auto simp: RegisterCustomTriggerFactory_def Let_def split: option.splits)

text \<open>
  On the examples: \<open>edgex-MessageBus\<close> is rejected, and \<open>custom\<close> is registered under
  \<open>CUSTOM\<close> and not under \<open>custom\<close>.
\<close>

theorem RegisterCustomTriggerFactory_builtin_rejected_witness:
  "asciiToUpper ''edgex-MessageBus'' \<in> {TriggerTypeHTTP, TriggerTypeMessageBus, TriggerTypeMQTT}
   \<and> RegisterCustomTriggerFactory asciiToUpper exampleSDK ''edgex-MessageBus'' exampleFactory
       = (Some ''cannot register custom trigger for builtin type (edgex-MessageBus)'', exampleSDK)
   \<and> asciiToUpper ''custom'' \<notin> {TriggerTypeHTTP, TriggerTypeMessageBus, TriggerTypeMQTT}
   \<and> fst (RegisterCustomTriggerFactory asciiToUpper exampleSDK ''custom'' exampleFactory) = None
   \<and> (case customTriggerFactories (snd (RegisterCustomTriggerFactory asciiToUpper exampleSDK ''custom'' exampleFactory)) of
         None \<Rightarrow> False
       | Some registry \<Rightarrow> registry ''CUSTOM'' = Some (\<lambda>config. exampleFactory \<lparr>tcConfig = config\<rparr>)
                           \<and> registry ''custom'' = None)"
proof -
  have u1: "asciiToUpper ''edgex-MessageBus'' = ''EDGEX-MESSAGEBUS''" by (simp add: asciiToUpper_def)
  have u2: "asciiToUpper ''custom'' = ''CUSTOM''" by (simp add: asciiToUpper_def)
  have h1: "asciiToUpper ''edgex-MessageBus'' \<in> {TriggerTypeHTTP, TriggerTypeMessageBus, TriggerTypeMQTT}"
    by (simp add: u1 TriggerTypeMessageBus_def)
  have h2: "asciiToUpper ''custom'' \<notin> {TriggerTypeHTTP, TriggerTypeMessageBus, TriggerTypeMQTT}"
    by (simp add: u2 TriggerTypeMessageBus_def TriggerTypeHTTP_def TriggerTypeMQTT_def)
  note t1 = RegisterCustomTriggerFactory_builtin_rejected
              [of asciiToUpper "''edgex-MessageBus''" exampleSDK exampleFactory]
  note t2 = RegisterCustomTriggerFactory_builtin_rejected
              [of asciiToUpper "''custom''" exampleSDK exampleFactory]
  from t1 h1 obtain err where
    r: "RegisterCustomTriggerFactory asciiToUpper exampleSDK ''edgex-MessageBus'' exampleFactory = (Some err, exampleSDK)"
    by blast
  have a: "RegisterCustomTriggerFactory asciiToUpper exampleSDK ''edgex-MessageBus'' exampleFactory
       = (Some ''cannot register custom trigger for builtin type (edgex-MessageBus)'', exampleSDK)"
    using r by (simp add: RegisterCustomTriggerFactory_def u1 TriggerTypeMessageBus_def)
  from t2 h2 obtain registry where
    reg: "RegisterCustomTriggerFactory asciiToUpper exampleSDK ''custom'' exampleFactory
            = (None, exampleSDK\<lparr>customTriggerFactories := Some registry\<rparr>)"
      "registry (asciiToUpper ''custom'') = Some (\<lambda>config. exampleFactory \<lparr>tcConfig = config\<rparr>)"
      "\<forall>key. key \<noteq> asciiToUpper ''custom'' \<longrightarrow>
         registry key = (case customTriggerFactories exampleSDK of None \<Rightarrow> None | Some m \<Rightarrow> m key)"
    by blast
  have "registry ''custom'' = None"
    using reg(3) by (simp add: u2 exampleSDK_def)
  with reg(1,2) have b: "fst (RegisterCustomTriggerFactory asciiToUpper exampleSDK ''custom'' exampleFactory) = None
     \<and> (case customTriggerFactories (snd (RegisterCustomTriggerFactory asciiToUpper exampleSDK ''custom'' exampleFactory)) of
         None \<Rightarrow> False
       | Some registry \<Rightarrow> registry ''CUSTOM'' = Some (\<lambda>config. exampleFactory \<lparr>tcConfig = config\<rparr>)
                           \<and> registry ''custom'' = None)"
    by (simp add: u2)
  from h1 a h2 b show ?thesis by blast
qed

end
